theory Spec2Isabelle
  imports Main "HOL-Library.Monad_Syntax" "HOL-Library.Multiset"
begin

section \<open>Errors (package util)\<close>

text \<open>
  A Go \<^verbatim>\<open>error\<close> value is an interface; the reconciler distinguishes three dynamic
  types by type assertion: \<^verbatim>\<open>*util.PersistentError\<close>, \<^verbatim>\<open>*nb.RPCError\<close> and everything
  else (the values built by \<^verbatim>\<open>fmt.Errorf\<close>).  The nil interface is \<open>None\<close> of
  \<open>error option\<close>.
\<close>

datatype error =
    PersistentError (Reason: string) (Message: string)
  | RPCError (RPCCode: string) (RPCMessage: string)
  | Errorf string

text \<open>\<^verbatim>\<open>NewPersistentError(reason, message)\<close>.\<close>

definition NewPersistentError :: "string \<Rightarrow> string \<Rightarrow> error" where
  "NewPersistentError reason message = PersistentError reason message"

text \<open>\<^verbatim>\<open>IsPersistentError\<close>: the type assertion \<^verbatim>\<open>err.(*PersistentError)\<close>.\<close>

fun IsPersistentError :: "error \<Rightarrow> bool" where
  "IsPersistentError (PersistentError _ _) = True"
| "IsPersistentError _ = False"

text \<open>
  \<^verbatim>\<open>err.Error()\<close>.  For a persistent error this is its message (part_002, line 672); for a
  \<^verbatim>\<open>fmt.Errorf\<close> value it is the formatted text.  The method of \<^verbatim>\<open>nb.RPCError\<close> is declared
  in package nb, which is not part of the sources at hand; its message field stands for it.
\<close>

fun Error_text :: "error \<Rightarrow> string" where
  "Error_text (PersistentError _ m) = m"
| "Error_text (RPCError _ m) = m"
| "Error_text (Errorf s) = s"

text \<open>
  \<^verbatim>\<open>CombineErrors(errs ...error)\<close>: the loop over \<^verbatim>\<open>errs\<close> with the running value
  \<^verbatim>\<open>combined\<close> as accumulator.
\<close>

fun CombineErrors_loop :: "error option \<Rightarrow> error option list \<Rightarrow> error option" where
  "CombineErrors_loop combined [] = combined"
| "CombineErrors_loop combined (None # errs) = CombineErrors_loop combined errs"
| "CombineErrors_loop None (Some err # errs) = CombineErrors_loop (Some err) errs"
| "CombineErrors_loop (Some c) (Some err # errs) =
     (if IsPersistentError err \<and> \<not> IsPersistentError c
      then CombineErrors_loop (Some err) errs
      else CombineErrors_loop (Some c) errs)"

definition CombineErrors :: "error option list \<Rightarrow> error option" where
  "CombineErrors errs = CombineErrors_loop None errs"

text \<open>The first non-nil entry of a list of errors, nil when there is none.\<close>

fun first_non_nil :: "error option list \<Rightarrow> error option" where
  "first_non_nil [] = None"
| "first_non_nil (None # errs) = first_non_nil errs"
| "first_non_nil (Some e # errs) = Some e"

definition is_persistent :: "error option \<Rightarrow> bool" where
  "is_persistent e = (case e of None \<Rightarrow> False | Some x \<Rightarrow> IsPersistentError x)"

section \<open>Constants of the API packages\<close>

text \<open>
  Modelled from the spec: the phase names of package nbv1 are not among the sources; section 3
  of the specification lists them (New, Verifying, Connecting, Creating, Ready, Rejected,
  Deleting).  A phase is a Go string, and the empty string is "no phase".
\<close>

definition NamespaceStorePhaseVerifying :: string where
  "NamespaceStorePhaseVerifying = ''Verifying''"

definition NamespaceStorePhaseConnecting :: string where
  "NamespaceStorePhaseConnecting = ''Connecting''"

definition NamespaceStorePhaseCreating :: string where
  "NamespaceStorePhaseCreating = ''Creating''"

definition NamespaceStorePhaseReady :: string where
  "NamespaceStorePhaseReady = ''Ready''"

definition NamespaceStorePhaseRejected :: string where
  "NamespaceStorePhaseRejected = ''Rejected''"

definition NamespaceStorePhaseDeleting :: string where
  "NamespaceStorePhaseDeleting = ''Deleting''"

text \<open>
  The store types, signature versions and finalizer of nbv1, the endpoint types and
  connection-check statuses of nb, and the event types of corev1.  Their declarations are
  outside the sources at hand; each is a distinct string constant (the \<^verbatim>\<open>switch\<close>
  statements over them would not compile otherwise).
\<close>

definition NSStoreTypeAWSS3 :: string where "NSStoreTypeAWSS3 = ''aws-s3''"
definition NSStoreTypeS3Compatible :: string where "NSStoreTypeS3Compatible = ''s3-compatible''"
definition NSStoreTypeIBMCos :: string where "NSStoreTypeIBMCos = ''ibm-cos''"
definition NSStoreTypeAzureBlob :: string where "NSStoreTypeAzureBlob = ''azure-blob''"
definition NSStoreTypeNSFS :: string where "NSStoreTypeNSFS = ''nsfs''"

definition S3SignatureVersionV4 :: string where "S3SignatureVersionV4 = ''v4''"
definition S3SignatureVersionV2 :: string where "S3SignatureVersionV2 = ''v2''"

definition Finalizer :: string where "Finalizer = ''noobaa.io/finalizer''"

definition EndpointTypeAws :: string where "EndpointTypeAws = ''AWS''"
definition EndpointTypeS3Compat :: string where "EndpointTypeS3Compat = ''S3_COMPATIBLE''"
definition EndpointTypeIBMCos :: string where "EndpointTypeIBMCos = ''IBM_COS''"
definition EndpointTypeAzure :: string where "EndpointTypeAzure = ''AZURE''"

definition ExternalConnectionSuccess :: string where
  "ExternalConnectionSuccess = ''SUCCESS''"
definition ExternalConnectionTimeout :: string where
  "ExternalConnectionTimeout = ''TIMEOUT''"
definition ExternalConnectionInvalidEndpoint :: string where
  "ExternalConnectionInvalidEndpoint = ''INVALID_ENDPOINT''"
definition ExternalConnectionInvalidCredentials :: string where
  "ExternalConnectionInvalidCredentials = ''INVALID_CREDENTIALS''"
definition ExternalConnectionNotSupported :: string where
  "ExternalConnectionNotSupported = ''NOT_SUPPORTED''"
definition ExternalConnectionTimeSkew :: string where
  "ExternalConnectionTimeSkew = ''TIME_SKEW''"
definition ExternalConnectionUnknownFailure :: string where
  "ExternalConnectionUnknownFailure = ''UNKNOWN_FAILURE''"

definition EventTypeNormal :: string where "EventTypeNormal = ''Normal''"
definition EventTypeWarning :: string where "EventTypeWarning = ''Warning''"

text \<open>\<^verbatim>\<open>time.Duration\<close> counts nanoseconds.\<close>

type_synonym Duration = int

definition Second :: Duration where "Second = 1000000000"
definition Minute :: Duration where "Minute = 60 * Second"

text \<open>
  \<^verbatim>\<open>%q\<close> of \<^verbatim>\<open>fmt.Sprintf\<close>: the text between double quotes (the escaping of special
  characters inside is not modelled).
\<close>

definition quoted :: "string \<Rightarrow> string" where
  "quoted s = [CHR 0x22] @ s @ [CHR 0x22]"

section \<open>Status conditions\<close>

record Condition =
  cond_Type :: string
  cond_Status :: string
  cond_Reason :: string
  cond_Message :: string

text \<open>
  \<^verbatim>\<open>conditionsv1.SetStatusCondition\<close>: the condition of the same type is overwritten, a
  new type is appended.  Timestamps are left out.
\<close>

fun SetStatusCondition :: "Condition list \<Rightarrow> Condition \<Rightarrow> Condition list" where
  "SetStatusCondition [] new = [new]"
| "SetStatusCondition (c # cs) new =
     (if cond_Type c = cond_Type new then new # cs else c # SetStatusCondition cs new)"

definition set_four :: "Condition list \<Rightarrow> string \<Rightarrow> string \<Rightarrow> string \<Rightarrow> string \<Rightarrow> string \<Rightarrow> string \<Rightarrow> Condition list" where
  "set_four cs available progressing degraded upgradeable reason message =
     (let mk = (\<lambda>t s. \<lparr>cond_Type = t, cond_Status = s, cond_Reason = reason, cond_Message = message\<rparr>);
          cs = SetStatusCondition cs (mk ''Available'' available);
          cs = SetStatusCondition cs (mk ''Progressing'' progressing);
          cs = SetStatusCondition cs (mk ''Degraded'' degraded)
      in SetStatusCondition cs (mk ''Upgradeable'' upgradeable))"

definition SetAvailableCondition :: "Condition list \<Rightarrow> string \<Rightarrow> string \<Rightarrow> Condition list" where
  "SetAvailableCondition cs reason message = set_four cs ''True'' ''False'' ''False'' ''True'' reason message"

definition SetProgressingCondition :: "Condition list \<Rightarrow> string \<Rightarrow> string \<Rightarrow> Condition list" where
  "SetProgressingCondition cs reason message = set_four cs ''False'' ''True'' ''False'' ''False'' reason message"

definition SetErrorCondition :: "Condition list \<Rightarrow> string \<Rightarrow> string \<Rightarrow> Condition list" where
  "SetErrorCondition cs reason message = set_four cs ''Unknown'' ''False'' ''True'' ''Unknown'' reason message"

section \<open>Records of the cluster and of the remote system\<close>

record AWSS3Spec =
  AWSS3_Region :: string
  AWSS3_SSLDisabled :: bool

record S3CompatibleSpec =
  S3C_Endpoint :: string
  S3C_SignatureVersion :: string

record IBMCosSpec =
  IBM_Endpoint :: string
  IBM_SignatureVersion :: string

record NSFSSpec =
  NSFS_FsBackend :: string
  NSFS_FsRootPath :: string

text \<open>
  The type-specific blocks of the spec are pointers (line 574 assigns through one): a nil
  block is \<open>None\<close>, and reading a field of it panics.
\<close>

record NamespaceStoreSpec =
  spec_Type :: string
  spec_AWSS3 :: "AWSS3Spec option"
  spec_S3Compatible :: "S3CompatibleSpec option"
  spec_IBMCos :: "IBMCosSpec option"
  spec_NSFS :: "NSFSSpec option"

text \<open>
  The namespace store record: the metadata the reconciler reads, its spec, and its status
  (phase, conditions, mode code).  A Go map of labels is an association list, \<open>None\<close> the
  nil map; the finalizers are a slice, \<open>None\<close> the nil slice.
\<close>

record NamespaceStore =
  ns_Name :: string
  ns_Namespace :: string
  ns_UID :: string
  ns_Labels :: "(string \<times> string) list option"
  ns_Finalizers :: "string list option"
  ns_DeletionTimestamp :: "int option"
  ns_Spec :: NamespaceStoreSpec
  Status_Phase :: string
  Status_Conditions :: "Condition list"
  Status_ModeCode :: string

record NooBaa =
  nb_Name :: string
  nb_UID :: string

record Secret =
  sec_Name :: string
  sec_Namespace :: string
  sec_UID :: string
  sec_StringData :: "(string \<times> string) list"

record SecretReference =
  ref_Name :: string
  ref_Namespace :: string

record ExternalConnectionInfo =
  ec_Name :: string
  ec_EndpointType :: string
  ec_Endpoint :: string
  ec_Identity :: string

record AllowedBuckets =
  FullPermission :: bool
  PermissionList :: "string list option"

record AccountInfo =
  acc_Email :: string
  acc_HasS3Access :: bool
  acc_DefaultResource :: string
  acc_AllowedBuckets :: AllowedBuckets
  acc_Connections :: "ExternalConnectionInfo list"

record PoolInfo =
  pool_Name :: string
  pool_ResourceType :: string

record NamespaceResourceInfo =
  nsr_Name :: string
  nsr_EndpointType :: string
  nsr_Endpoint :: string
  nsr_Identity :: string

record SystemInfo =
  Accounts :: "AccountInfo list"
  Pools :: "PoolInfo list"
  NamespaceResources :: "NamespaceResourceInfo list"

record AddExternalConnectionParams =
  conn_Name :: string
  conn_EndpointType :: string
  conn_Endpoint :: string
  conn_Identity :: string
  conn_Secret :: string
  conn_AuthMethod :: string

record NSFSConfig =
  FsBackend :: string
  FsRootPath :: string

record NamespaceStoreInfo =
  nsi_Name :: string
  nsi_Namespace :: string

record CreateNamespaceResourceParams =
  cnr_Name :: string
  cnr_Connection :: string
  cnr_TargetBucket :: string
  cnr_NSFSConfig :: "NSFSConfig option"
  cnr_NamespaceStore :: "NamespaceStoreInfo option"

record UpdateAccountS3AccessParams =
  upd_Email :: string
  upd_S3Access :: bool
  upd_DefaultResource :: "string option"
  upd_AllowBuckets :: "AllowedBuckets option"

record CheckExternalConnectionReply =
  reply_Status :: string
  reply_Error_Code :: string
  reply_Error_Message :: string

record URL =
  url_Scheme :: string
  url_Host :: string
  url_Rest :: string

record Result =
  Requeue :: bool
  RequeueAfter :: Duration

record ModeInfo =
  mode_Phase :: string
  mode_Severity :: string

record Event =
  ev_Type :: string
  ev_Reason :: string
  ev_Message :: string

section \<open>The world outside the reconciler\<close>

text \<open>
  What a call of the cluster client answers: the object on success, one of the three kinds
  of failure that \<^verbatim>\<open>KubeCheck\<close> and \<^verbatim>\<open>KubeUpdate\<close> tolerate (no such kind registered, not
  found, conflict), or any other failure, on which they panic.
\<close>

datatype 'a kube_reply = KubeOK 'a | KubeNoMatch | KubeNotFound | KubeConflict | KubeFailure

text \<open>
  The calls that leave the process, each with the answer it got, in the order they are
  issued.  The reconciler's state below keeps this log; the position of a call in it is
  the moment it was made.
\<close>

datatype call =
    Call_Connect "error option"
  | Call_ReadSystemAPI "error + SystemInfo"
  | Call_CheckExternalConnectionAPI AddExternalConnectionParams "error + CheckExternalConnectionReply"
  | Call_AddExternalConnectionAPI AddExternalConnectionParams "error option"
  | Call_CreateNamespaceResourceAPI CreateNamespaceResourceParams "error option"
  | Call_UpdateAccountS3Access UpdateAccountS3AccessParams "error option"
  | Call_DeleteNamespaceResourceAPI string "error option"
  | Call_DeleteExternalConnectionAPI string "error option"
  | Call_KubeUpdate NamespaceStore "unit kube_reply"
  | Call_StatusUpdate NamespaceStore "error option"

text \<open>
  Everything the reconciler obtains from outside is a parameter: the answers of the cluster
  store, of the remote management API and of the clock, and the functions of this repository
  and of the Go library that the sources at hand do not contain (\<^verbatim>\<open>system.CheckSystem\<close>,
  \<^verbatim>\<open>system.Connect\<close>, \<^verbatim>\<open>GetNamespaceStoreSecret\<close>, \<^verbatim>\<open>GetNamespaceStoreTargetBucket\<close>,
  \<^verbatim>\<open>options.Namespace\<close>, \<^verbatim>\<open>url.Parse\<close>, \<^verbatim>\<open>URL.String\<close>, \<^verbatim>\<open>unicode.IsGraphic\<close>,
  \<^verbatim>\<open>unicode.IsSpace\<close>).  An answer may depend on the number of calls made before it (the
  first argument of type \<open>nat\<close>), so a remote side that changes between two calls is covered.
  \<open>None\<close> of \<open>CheckSystem\<close> is a panic inside it.  \<open>time_Since\<close> is the reading of
  \<^verbatim>\<open>time.Since(r.NamespaceStore.CreationTimestamp.Time)\<close>, the age of the record.  A run
  reads it at most three times (lines 269, 720 and 727); the age is taken to be the same at
  each, which for the two successive readings of lines 720 and 727 loses nothing as long as
  the clock does not run backwards between them.
\<close>

record Env =
  KubeGet_NamespaceStore :: "string \<Rightarrow> string \<Rightarrow> NamespaceStore kube_reply"
  KubeGet_Secret :: "string \<Rightarrow> string \<Rightarrow> Secret kube_reply"
  KubeUpdate_reply :: "nat \<Rightarrow> NamespaceStore \<Rightarrow> unit kube_reply"
  StatusUpdate_reply :: "nat \<Rightarrow> NamespaceStore \<Rightarrow> error option"
  CheckSystem :: "NooBaa \<Rightarrow> NooBaa option"
  GetNamespaceStoreSecret :: "NamespaceStore \<Rightarrow> SecretReference option"
  GetNamespaceStoreTargetBucket :: "NamespaceStore \<Rightarrow> string"
  options_Namespace :: string
  system_Connect :: "nat \<Rightarrow> error option"
  ReadSystemAPI :: "nat \<Rightarrow> error + SystemInfo"
  CheckExternalConnectionAPI :: "nat \<Rightarrow> AddExternalConnectionParams \<Rightarrow> error + CheckExternalConnectionReply"
  AddExternalConnectionAPI :: "nat \<Rightarrow> AddExternalConnectionParams \<Rightarrow> error option"
  CreateNamespaceResourceAPI :: "nat \<Rightarrow> CreateNamespaceResourceParams \<Rightarrow> error option"
  UpdateAccountS3Access :: "nat \<Rightarrow> UpdateAccountS3AccessParams \<Rightarrow> error option"
  DeleteNamespaceResourceAPI :: "nat \<Rightarrow> string \<Rightarrow> error option"
  DeleteExternalConnectionAPI :: "nat \<Rightarrow> string \<Rightarrow> error option"
  time_Since :: Duration
  url_Parse :: "string \<Rightarrow> string + URL"
  url_String :: "URL \<Rightarrow> string"
  IsGraphic :: "char \<Rightarrow> bool"
  IsSpace :: "char \<Rightarrow> bool"

section \<open>The reconciler\<close>

text \<open>
  The struct \<^verbatim>\<open>Reconciler\<close>: the objects it works on, the information read from the
  remote system, and the parameters prepared for it.  \<open>Recorder\<close> says that the event
  recorder is not nil.  The two last fields are not fields of the Go struct: they log the
  effects of the run, the calls issued and the events emitted.
\<close>

record Reconciler =
  NamespaceStore :: NamespaceStore
  NooBaa :: NooBaa
  Secret :: Secret
  Recorder :: bool
  SystemInfo :: "SystemInfo option"
  ExternalConnectionInfo :: "ExternalConnectionInfo option"
  NamespaceResourceinfo :: "NamespaceResourceInfo option"
  AddExternalConnectionParams :: "AddExternalConnectionParams option"
  CreateNamespaceResourceParams :: "CreateNamespaceResourceParams option"
  calls :: "call list"
  events :: "Event list"

text \<open>Two states of the record that differ at most in the spec.\<close>

definition keeps :: "NamespaceStore \<Rightarrow> NamespaceStore \<Rightarrow> bool" where
  "keeps a b = (b = a\<lparr>ns_Spec := ns_Spec b\<rparr>)"

text \<open>
  What a step that only talks to the remote system leaves alone: the events, the recorder,
  the parent system, and the name, finalizers, deletion timestamp and mode of the record.
\<close>

definition steady :: "Reconciler \<Rightarrow> Reconciler \<Rightarrow> bool" where
  "steady r r' =
     (events r' = events r \<and> Recorder r' = Recorder r \<and> NooBaa r' = NooBaa r
      \<and> ns_Name (NamespaceStore r') = ns_Name (NamespaceStore r)
      \<and> ns_Finalizers (NamespaceStore r') = ns_Finalizers (NamespaceStore r)
      \<and> ns_DeletionTimestamp (NamespaceStore r') = ns_DeletionTimestamp (NamespaceStore r)
      \<and> Status_ModeCode (NamespaceStore r') = Status_ModeCode (NamespaceStore r))"

definition issue :: "call \<Rightarrow> Reconciler \<Rightarrow> Reconciler" where
  "issue c r = r\<lparr>calls := calls r @ [c]\<rparr>"

definition Eventf :: "string \<Rightarrow> string \<Rightarrow> string \<Rightarrow> Reconciler \<Rightarrow> Reconciler" where
  "Eventf eventtype reason message r =
     r\<lparr>events := events r @ [\<lparr>ev_Type = eventtype, ev_Reason = reason, ev_Message = message\<rparr>]\<rparr>"

text \<open>\<^verbatim>\<open>modeInfoMap\<close> (lines 40 to 47) and the lookup \<^verbatim>\<open>nsrModeInfoMap[mode]\<close>.\<close>

definition modeInfoMap :: "(string \<times> ModeInfo) list" where
  "modeInfoMap =
     [(''OPTIMAL'', \<lparr>mode_Phase = NamespaceStorePhaseReady, mode_Severity = EventTypeNormal\<rparr>),
      (''IO_ERRORS'', \<lparr>mode_Phase = NamespaceStorePhaseRejected, mode_Severity = EventTypeWarning\<rparr>),
      (''STORAGE_NOT_EXIST'', \<lparr>mode_Phase = NamespaceStorePhaseRejected, mode_Severity = EventTypeWarning\<rparr>),
      (''AUTH_FAILED'', \<lparr>mode_Phase = NamespaceStorePhaseRejected, mode_Severity = EventTypeWarning\<rparr>)]"

definition nsrModeInfoMap :: "string \<Rightarrow> ModeInfo option" where
  "nsrModeInfoMap = map_of modeInfoMap"

text \<open>\<^verbatim>\<open>SetPhase\<close> (lines 221 to 241).\<close>

definition SetPhase :: "string \<Rightarrow> string \<Rightarrow> string \<Rightarrow> Reconciler \<Rightarrow> Reconciler" where
  "SetPhase phase reason message r =
     (let ns = NamespaceStore r; c = Status_Conditions ns in
      if phase = '''' then
        r\<lparr>NamespaceStore := ns\<lparr>Status_Conditions := SetProgressingCondition c reason message\<rparr>\<rparr>
      else
        r\<lparr>NamespaceStore := ns\<lparr>Status_Phase := phase, Status_Conditions :=
            (if phase = NamespaceStorePhaseReady then SetAvailableCondition c reason message
             else if phase = NamespaceStorePhaseRejected then SetErrorCondition c reason message
             else SetProgressingCondition c reason message)\<rparr>\<rparr>)"

text \<open>\<^verbatim>\<open>UpdateStatus\<close> (lines 244 to 252).\<close>

definition UpdateStatus :: "Env \<Rightarrow> Reconciler \<Rightarrow> error option \<times> Reconciler" where
  "UpdateStatus env r =
     (let err = StatusUpdate_reply env (length (calls r)) (NamespaceStore r) in
      (err, issue (Call_StatusUpdate (NamespaceStore r) err) r))"

subsection \<open>Helpers of package util on the record\<close>

text \<open>
  \<^verbatim>\<open>KubeCheck(r.NamespaceStore)\<close>: on success the object is filled from the cluster; on a
  tolerated failure it is left as it is; on any other failure the call panics (\<open>None\<close>).
\<close>

definition KubeCheck_NamespaceStore :: "Env \<Rightarrow> Reconciler \<Rightarrow> Reconciler option" where
  "KubeCheck_NamespaceStore env r =
     (case KubeGet_NamespaceStore env (ns_Namespace (NamespaceStore r)) (ns_Name (NamespaceStore r)) of
        KubeOK obj \<Rightarrow> Some (r\<lparr>NamespaceStore := obj\<rparr>)
      | KubeNoMatch \<Rightarrow> Some r
      | KubeNotFound \<Rightarrow> Some r
      | KubeConflict \<Rightarrow> Some r
      | KubeFailure \<Rightarrow> None)"

text \<open>\<^verbatim>\<open>KubeUpdate(r.NamespaceStore)\<close> (part_002, lines 363 to 386).\<close>

definition KubeUpdate :: "Env \<Rightarrow> Reconciler \<Rightarrow> (bool \<times> Reconciler) option" where
  "KubeUpdate env r =
     (let reply = KubeUpdate_reply env (length (calls r)) (NamespaceStore r);
          r' = issue (Call_KubeUpdate (NamespaceStore r) reply) r in
      case reply of
        KubeOK _ \<Rightarrow> Some (True, r')
      | KubeNoMatch \<Rightarrow> Some (False, r')
      | KubeConflict \<Rightarrow> Some (False, r')
      | KubeNotFound \<Rightarrow> Some (False, r')
      | KubeFailure \<Rightarrow> None)"

text \<open>\<^verbatim>\<open>RemoveFinalizer\<close> (part_002, lines 490 to 509), as the new finalizers of the object.\<close>

definition RemoveFinalizer :: "NamespaceStore \<Rightarrow> string \<Rightarrow> NamespaceStore" where
  "RemoveFinalizer obj finalizer =
     (case ns_Finalizers obj of
        None \<Rightarrow> obj
      | Some finalizers \<Rightarrow> obj\<lparr>ns_Finalizers := Some (filter (\<lambda>f. f \<noteq> finalizer) finalizers)\<rparr>)"

text \<open>
  \<^verbatim>\<open>AddFinalizer\<close> (part_002, lines 512 to 519) and \<^verbatim>\<open>EnsureCommonMetaFields\<close> (lines 1200 to
  1221): the flag returned and the object as modified.
\<close>

definition AddFinalizer :: "NamespaceStore \<Rightarrow> string \<Rightarrow> bool \<times> NamespaceStore" where
  "AddFinalizer obj finalizer =
     (let fs = (case ns_Finalizers obj of None \<Rightarrow> [] | Some l \<Rightarrow> l) in
      if finalizer \<notin> set fs then (True, obj\<lparr>ns_Finalizers := Some (fs @ [finalizer])\<rparr>)
      else (False, obj))"

fun label_set :: "string \<Rightarrow> string \<Rightarrow> (string \<times> string) list \<Rightarrow> (string \<times> string) list" where
  "label_set k v [] = [(k, v)]"
| "label_set k v ((k', v') # kvs) =
     (if k' = k then (k, v) # kvs else (k', v') # label_set k v kvs)"

definition EnsureCommonMetaFields :: "NamespaceStore \<Rightarrow> string \<Rightarrow> bool \<times> NamespaceStore" where
  "EnsureCommonMetaFields object finalizer =
     (let (updated, object) =
            (case ns_Labels object of
               None \<Rightarrow> (True, object\<lparr>ns_Labels := Some [(''app'', ''noobaa'')]\<rparr>)
             | Some labels \<Rightarrow>
                 if map_of labels ''app'' \<noteq> Some ''noobaa''
                 then (True, object\<lparr>ns_Labels := Some (label_set ''app'' ''noobaa'' labels)\<rparr>)
                 else (False, object));
          (added, object) = AddFinalizer object finalizer
      in (updated \<or> added, object))"

subsection \<open>Phase 1: Verifying\<close>

text \<open>\<^verbatim>\<open>ReconcilePhaseVerifying\<close> (lines 255 to 277).\<close>

definition ReconcilePhaseVerifying :: "Env \<Rightarrow> Reconciler \<Rightarrow> error option \<times> Reconciler" where
  "ReconcilePhaseVerifying env r0 =
     (let r = SetPhase NamespaceStorePhaseVerifying ''NamespaceStorePhaseVerifying''
                (''noobaa operator started phase 1/3 - '' @ quoted ''Verifying'') r0 in
      if nb_UID (NooBaa r) = '''' then
        (Some (NewPersistentError ''MissingSystem''
           (''NooBaa system '' @ quoted (nb_Name (NooBaa r)) @ '' not found or deleted'')), r)
      else if sec_Name (Secret r) \<noteq> '''' \<and> sec_UID (Secret r) = '''' then
        (if time_Since env < 5 * Minute then
           (Some (Errorf (''NamespaceStore Secret '' @ quoted (sec_Name (Secret r)) @
              '' not found, but not rejecting the young as it might be in process'')), r)
         else
           (Some (NewPersistentError ''MissingSecret''
              (''NamespaceStore Secret '' @ quoted (sec_Name (Secret r)) @ '' not found or deleted'')), r))
      else (None, r))"

subsection \<open>Building the connection descriptor\<close>

text \<open>Reading \<^verbatim>\<open>m[k]\<close> of a Go map of strings (the empty string for a missing key) and
  writing \<^verbatim>\<open>m[k] = v\<close>.\<close>

definition StringData :: "Secret \<Rightarrow> string \<Rightarrow> string" where
  "StringData s k = (case map_of (sec_StringData s) k of None \<Rightarrow> '''' | Some v \<Rightarrow> v)"

text \<open>\<^verbatim>\<open>fixAlternateKeysNames\<close> (lines 662 to 684).\<close>

definition fix_key :: "string \<Rightarrow> string list \<Rightarrow> Secret \<Rightarrow> Secret" where
  "fix_key canonical alternates secret =
     (if StringData secret canonical = '''' then
        (case find (\<lambda>key. StringData secret key \<noteq> '''') alternates of
           None \<Rightarrow> secret
         | Some key \<Rightarrow>
             secret\<lparr>sec_StringData :=
               label_set canonical (StringData secret key) (sec_StringData secret)\<rparr>)
      else secret)"

definition fixAlternateKeysNames :: "Reconciler \<Rightarrow> Reconciler" where
  "fixAlternateKeysNames r =
     r\<lparr>Secret :=
        fix_key ''AWS_SECRET_ACCESS_KEY'' [''aws_secret_access_key'', ''SecretKey'']
          (fix_key ''AWS_ACCESS_KEY_ID'' [''aws_access_key_id'', ''AccessKey''] (Secret r))\<rparr>"

text \<open>
  \<^verbatim>\<open>regexp.MatchString(`^\w+://`, s)\<close>: a non-empty run of word characters (letters, digits,
  underscore) at the start, followed by \<^verbatim>\<open>://\<close>.  The pattern is a valid constant, so the
  error result of the call is always nil.
\<close>

definition is_word_char :: "char \<Rightarrow> bool" where
  "is_word_char c =
     (let n = (of_char c :: nat) in
      (48 \<le> n \<and> n \<le> 57) \<or> (65 \<le> n \<and> n \<le> 90) \<or> (97 \<le> n \<and> n \<le> 122) \<or> n = 95)"

definition MatchScheme :: "string \<Rightarrow> bool" where
  "MatchScheme s = (takeWhile is_word_char s \<noteq> [] \<and> take 3 (dropWhile is_word_char s) = ''://'')"

text \<open>
  The endpoint of an S3 compatible or IBM COS store (lines 557 to 591, and the same text at
  lines 607 to 641): the endpoint string as the spec block holds it afterwards (line 574
  and line 624 write it back), and the error or the endpoint of the descriptor.
\<close>

definition make_endpoint :: "Env \<Rightarrow> string \<Rightarrow> string \<times> (error + string)" where
  "make_endpoint env endpoint =
     (if endpoint = '''' then
        (endpoint, Inr (url_String env \<lparr>url_Scheme = ''https'', url_Host = ''127.0.0.1:6443'', url_Rest = ''''\<rparr>))
      else
        (let endpoint = (if MatchScheme endpoint then endpoint else ''https://'' @ endpoint) in
         case url_Parse env endpoint of
           Inl err \<Rightarrow>
             (endpoint, Inl (NewPersistentError ''InvalidEndpoint''
                (''Invalid endpoint url '' @ quoted endpoint @ '': '' @ err)))
         | Inr u \<Rightarrow>
             (endpoint, Inr (url_String env (if url_Scheme u = '''' then u\<lparr>url_Scheme := ''https''\<rparr> else u)))))"

text \<open>The signature version of those two store types (lines 548 to 556 and 598 to 606).\<close>

definition auth_method :: "string \<Rightarrow> string \<Rightarrow> error + string" where
  "auth_method signatureVersion name =
     (if signatureVersion = S3SignatureVersionV4 then Inr ''AWS_V4''
      else if signatureVersion = S3SignatureVersionV2 then Inr ''AWS_V2''
      else if signatureVersion \<noteq> '''' then
        Inl (NewPersistentError ''InvalidSignatureVersion''
          (''Invalid s3 signature version '' @ quoted signatureVersion @
           '' for namespace store '' @ quoted name))
      else Inr '''')"

text \<open>\<^verbatim>\<open>IsStringGraphicOrSpacesCharsOnly\<close> (part_002, lines 1029 to 1036).\<close>

definition IsStringGraphicOrSpacesCharsOnly :: "Env \<Rightarrow> string \<Rightarrow> bool" where
  "IsStringGraphicOrSpacesCharsOnly env s = list_all (\<lambda>c. \<not> (\<not> IsGraphic env c \<and> \<not> IsSpace env c)) s"

text \<open>
  The \<^verbatim>\<open>switch\<close> of \<^verbatim>\<open>MakeExternalConnectionParams\<close> (lines 524 to 652), on the store
  and the secret of the reconciler: the error or the descriptor, and the spec of the store as
  the switch leaves it (only the endpoint of a block can have changed).  \<open>None\<close> is the
  panic of reading a field through a nil spec block.
\<close>

definition conn_of_type ::
  "Env \<Rightarrow> NamespaceStore \<Rightarrow> Secret \<Rightarrow> ((error + AddExternalConnectionParams) \<times> NamespaceStoreSpec) option" where
  "conn_of_type env ns secret =
     (let spec = ns_Spec ns; t = spec_Type spec;
          conn = \<lparr>conn_Name = ns_Name ns, conn_EndpointType = '''', conn_Endpoint = '''',
                  conn_Identity = '''', conn_Secret = '''', conn_AuthMethod = ''''\<rparr>
      in
      if t = NSStoreTypeAWSS3 then
        (case spec_AWSS3 spec of
           None \<Rightarrow> None
         | Some awsS3 \<Rightarrow>
             Some (Inr (conn\<lparr>conn_EndpointType := EndpointTypeAws,
                 conn_Identity := StringData secret ''AWS_ACCESS_KEY_ID'',
                 conn_Secret := StringData secret ''AWS_SECRET_ACCESS_KEY'',
                 conn_Endpoint := url_String env
                   \<lparr>url_Scheme = (if AWSS3_SSLDisabled awsS3 then ''http'' else ''https''),
                    url_Host = (if AWSS3_Region awsS3 \<noteq> ''''
                                then ''s3.'' @ AWSS3_Region awsS3 @ ''.amazonaws.com''
                                else ''s3.amazonaws.com''),
                    url_Rest = ''''\<rparr>\<rparr>), spec))
      else if t = NSStoreTypeS3Compatible then
        (case spec_S3Compatible spec of
           None \<Rightarrow> None
         | Some s3Compatible \<Rightarrow>
             (case auth_method (S3C_SignatureVersion s3Compatible) (ns_Name ns) of
                Inl err \<Rightarrow> Some (Inl err, spec)
              | Inr am \<Rightarrow>
                  (let (endpoint, res) = make_endpoint env (S3C_Endpoint s3Compatible);
                       spec = spec\<lparr>spec_S3Compatible :=
                                Some (s3Compatible\<lparr>S3C_Endpoint := endpoint\<rparr>)\<rparr>
                   in case res of
                        Inl err \<Rightarrow> Some (Inl err, spec)
                      | Inr e \<Rightarrow>
                          Some (Inr (conn\<lparr>conn_EndpointType := EndpointTypeS3Compat,
                              conn_Identity := StringData secret ''AWS_ACCESS_KEY_ID'',
                              conn_Secret := StringData secret ''AWS_SECRET_ACCESS_KEY'',
                              conn_AuthMethod := am, conn_Endpoint := e\<rparr>), spec))))
      else if t = NSStoreTypeIBMCos then
        (case spec_IBMCos spec of
           None \<Rightarrow> None
         | Some IBMCos \<Rightarrow>
             (case auth_method (IBM_SignatureVersion IBMCos) (ns_Name ns) of
                Inl err \<Rightarrow> Some (Inl err, spec)
              | Inr am \<Rightarrow>
                  (let (endpoint, res) = make_endpoint env (IBM_Endpoint IBMCos);
                       spec = spec\<lparr>spec_IBMCos := Some (IBMCos\<lparr>IBM_Endpoint := endpoint\<rparr>)\<rparr>
                   in case res of
                        Inl err \<Rightarrow> Some (Inl err, spec)
                      | Inr e \<Rightarrow>
                          Some (Inr (conn\<lparr>conn_EndpointType := EndpointTypeIBMCos,
                              conn_Identity := StringData secret ''IBM_COS_ACCESS_KEY_ID'',
                              conn_Secret := StringData secret ''IBM_COS_SECRET_ACCESS_KEY'',
                              conn_AuthMethod := am, conn_Endpoint := e\<rparr>), spec))))
      else if t = NSStoreTypeAzureBlob then
        Some (Inr (conn\<lparr>conn_EndpointType := EndpointTypeAzure,
            conn_Endpoint := ''https://blob.core.windows.net'',
            conn_Identity := StringData secret ''AccountName'',
            conn_Secret := StringData secret ''AccountKey''\<rparr>), spec)
      else
        Some (Inl (NewPersistentError ''InvalidType''
          (''Invalid namespace store type '' @ quoted t)), spec))"

text \<open>\<^verbatim>\<open>MakeExternalConnectionParams\<close> (lines 516 to 660).\<close>

definition MakeExternalConnectionParams :: "Env \<Rightarrow> Reconciler \<Rightarrow> ((error + AddExternalConnectionParams) \<times> Reconciler) option" where
  "MakeExternalConnectionParams env r0 =
     (let r1 = fixAlternateKeysNames r0 in
      case conn_of_type env (NamespaceStore r1) (Secret r1) of
        None \<Rightarrow> None
      | Some (res, spec) \<Rightarrow>
          (let r = r1\<lparr>NamespaceStore := (NamespaceStore r1)\<lparr>ns_Spec := spec\<rparr>\<rparr> in
           case res of
             Inl err \<Rightarrow> Some (Inl err, r)
           | Inr conn \<Rightarrow>
               if \<not> IsStringGraphicOrSpacesCharsOnly env (conn_Identity conn)
                  \<or> \<not> IsStringGraphicOrSpacesCharsOnly env (conn_Secret conn)
               then Some (Inl (NewPersistentError ''InvalidSecret''
                      (''Invalid secret containing non graphic characters (perhaps not base64 encoded?) ''
                       @ quoted (sec_Name (Secret r)))), r)
               else Some (Inr conn, r)))"

subsection \<open>Phase 2: Connecting\<close>

text \<open>
  The test of lines 476 to 478, and the body of the inner loop (lines 475 to 481): a
  matching connection becomes \<^verbatim>\<open>r.ExternalConnectionInfo\<close> and gives its name to the
  descriptor.  The state of the two loops is the pair of these.
\<close>

definition same_triple :: "ExternalConnectionInfo \<Rightarrow> AddExternalConnectionParams \<Rightarrow> bool" where
  "same_triple c conn =
     (ec_EndpointType c = conn_EndpointType conn \<and> ec_Endpoint c = conn_Endpoint conn
      \<and> ec_Identity c = conn_Identity conn)"

definition reuse_connection ::
  "ExternalConnectionInfo \<Rightarrow> ExternalConnectionInfo option \<times> AddExternalConnectionParams
   \<Rightarrow> ExternalConnectionInfo option \<times> AddExternalConnectionParams" where
  "reuse_connection c st =
     (case st of (info, conn) \<Rightarrow>
        if same_triple c conn then (Some c, conn\<lparr>conn_Name := ec_Name c\<rparr>) else (info, conn))"

definition scan_connections ::
  "AccountInfo list \<Rightarrow> ExternalConnectionInfo option \<times> AddExternalConnectionParams
   \<Rightarrow> ExternalConnectionInfo option \<times> AddExternalConnectionParams" where
  "scan_connections accounts st =
     fold (\<lambda>account. fold reuse_connection (acc_Connections account)) accounts st"

text \<open>
  The registered connections of the system, in the order the two loops visit them, that
  have the triple of a descriptor.
\<close>

definition matches :: "AddExternalConnectionParams \<Rightarrow> SystemInfo \<Rightarrow> ExternalConnectionInfo list" where
  "matches conn systemInfo =
     filter (\<lambda>c. same_triple c conn) (concat (map acc_Connections (Accounts systemInfo)))"

text \<open>
  \<^verbatim>\<open>ReadSystemInfo\<close> (lines 412 to 498).  \<open>None\<close> is a panic (a nil spec block); otherwise
  the error returned and the reconciler as the call leaves it.
\<close>

definition ReadSystemInfo :: "Env \<Rightarrow> Reconciler \<Rightarrow> (error option \<times> Reconciler) option" where
  "ReadSystemInfo env r0 =
     (case system_Connect env (length (calls r0)) of
        Some err \<Rightarrow> Some (Some err, issue (Call_Connect (Some err)) r0)
      | None \<Rightarrow>
          (let r = issue (Call_Connect None) r0 in
           case ReadSystemAPI env (length (calls r)) of
             Inl err \<Rightarrow> Some (Some err, issue (Call_ReadSystemAPI (Inl err)) r)
           | Inr systemInfo \<Rightarrow>
               (let r = (issue (Call_ReadSystemAPI (Inr systemInfo)) r)\<lparr>SystemInfo := Some systemInfo\<rparr>;
                    r = (case find (\<lambda>nsr. nsr_Name nsr = ns_Name (NamespaceStore r))
                                (NamespaceResources systemInfo) of
                           None \<Rightarrow> r
                         | Some nsr \<Rightarrow> r\<lparr>NamespaceResourceinfo := Some nsr\<rparr>);
                    ns = NamespaceStore r
                in
                if spec_Type (ns_Spec ns) = NSStoreTypeNSFS then
                  (case spec_NSFS (ns_Spec ns) of
                     None \<Rightarrow> None
                   | Some nsfs \<Rightarrow>
                       Some (None, r\<lparr>CreateNamespaceResourceParams := Some
                         \<lparr>cnr_Name = ns_Name ns, cnr_Connection = '''', cnr_TargetBucket = '''',
                          cnr_NSFSConfig = Some \<lparr>FsBackend = NSFS_FsBackend nsfs,
                                                  FsRootPath = NSFS_FsRootPath nsfs\<rparr>,
                          cnr_NamespaceStore = Some \<lparr>nsi_Name = ns_Name ns,
                                                      nsi_Namespace = options_Namespace env\<rparr>\<rparr>\<rparr>))
                else
                  (case MakeExternalConnectionParams env r of
                     None \<Rightarrow> None
                   | Some (Inl err, r) \<Rightarrow> Some (Some err, r)
                   | Some (Inr conn, r) \<Rightarrow>
                       (let (info, conn) =
                              scan_connections (Accounts systemInfo) (ExternalConnectionInfo r, conn);
                            ns = NamespaceStore r
                        in Some (None, r\<lparr>ExternalConnectionInfo := info,
                             AddExternalConnectionParams := Some conn,
                             CreateNamespaceResourceParams := Some
                               \<lparr>cnr_Name = ns_Name ns, cnr_Connection = conn_Name conn,
                                cnr_TargetBucket = GetNamespaceStoreTargetBucket env ns,
                                cnr_NSFSConfig = None,
                                cnr_NamespaceStore = Some \<lparr>nsi_Name = ns_Name ns,
                                                            nsi_Namespace = options_Namespace env\<rparr>\<rparr>\<rparr>))))))"

text \<open>\<^verbatim>\<open>ReconcilePhaseConnecting\<close> (lines 280 to 295).\<close>

definition ReconcilePhaseConnecting :: "Env \<Rightarrow> Reconciler \<Rightarrow> (error option \<times> Reconciler) option" where
  "ReconcilePhaseConnecting env r =
     ReadSystemInfo env
       (SetPhase NamespaceStorePhaseConnecting ''NamespaceStorePhaseConnecting''
          (''noobaa operator started phase 2/3 - '' @ quoted ''Connecting'') r)"

subsection \<open>Phase 3: Creating\<close>

text \<open>
  The \<^verbatim>\<open>switch\<close> on the status of the connection check (lines 711 to 748): the error it
  returns, or \<open>None\<close> when control leaves the switch and goes on to line 750.  A
  \<^verbatim>\<open>fallthrough\<close> enters the body of the next case without testing its label, so the case
  of invalid credentials, past its own test of the age, runs the test of the invalid
  endpoint case as well.
\<close>

definition connection_status_error :: "Env \<Rightarrow> Reconciler \<Rightarrow> CheckExternalConnectionReply \<Rightarrow> error option" where
  "connection_status_error env r res =
     (let status = reply_Status res;
          notSupported = Some (NewPersistentError status
            (''NamespaceStore '' @ quoted (ns_Name (NamespaceStore r)) @
             '' invalid external connection '' @ quoted status));
          invalidEndpoint =
            (if time_Since env < 5 * Minute
             then Some (Errorf ''got invalid endopint. requeue again'')
             else notSupported)
      in
      if status = ExternalConnectionSuccess then None
      else if status = ExternalConnectionInvalidCredentials then
        (if time_Since env < 5 * Minute
         then Some (Errorf ''Got InvalidCredentials. requeue again'')
         else invalidEndpoint)
      else if status = ExternalConnectionInvalidEndpoint then invalidEndpoint
      else if status = ExternalConnectionTimeSkew then notSupported
      else if status = ExternalConnectionNotSupported then notSupported
      else Some (Errorf (''CheckExternalConnection Status='' @ status @ '' Error='' @
             reply_Error_Code res @ '' Message='' @ reply_Error_Message res)))"

text \<open>\<^verbatim>\<open>ReconcileExternalConnection\<close> (lines 687 to 759).\<close>

definition ReconcileExternalConnection :: "Env \<Rightarrow> Reconciler \<Rightarrow> error option \<times> Reconciler" where
  "ReconcileExternalConnection env r0 =
     (if ExternalConnectionInfo r0 \<noteq> None then (None, r0)
      else case AddExternalConnectionParams r0 of
        None \<Rightarrow> (None, r0)
      | Some params \<Rightarrow>
          (let reply = CheckExternalConnectionAPI env (length (calls r0)) params;
               r = issue (Call_CheckExternalConnectionAPI params reply) r0 in
           case reply of
             Inl err \<Rightarrow>
               (case err of
                  RPCError code message \<Rightarrow>
                    if code = ''INVALID_SCHEMA_PARAMS''
                    then (Some (NewPersistentError ''InvalidConnectionParams'' message), r)
                    else (Some err, r)
                | _ \<Rightarrow> (Some err, r))
           | Inr res \<Rightarrow>
               (case connection_status_error env r res of
                  Some err \<Rightarrow> (Some err, r)
                | None \<Rightarrow>
                    (let err = AddExternalConnectionAPI env (length (calls r)) params in
                     (err, issue (Call_AddExternalConnectionAPI params err) r)))))"

text \<open>\<^verbatim>\<open>ReconcileNamespaceStore\<close> (lines 762 to 775).\<close>

definition ReconcileNamespaceStore :: "Env \<Rightarrow> Reconciler \<Rightarrow> error option \<times> Reconciler" where
  "ReconcileNamespaceStore env r =
     (if NamespaceResourceinfo r \<noteq> None then (None, r)
      else case CreateNamespaceResourceParams r of
        None \<Rightarrow> (None, r)
      | Some params \<Rightarrow>
          (let err = CreateNamespaceResourceAPI env (length (calls r)) params in
           (err, issue (Call_CreateNamespaceResourceAPI params err) r)))"

text \<open>\<^verbatim>\<open>ReconcilePhaseCreating\<close> (lines 298 to 317).\<close>

definition ReconcilePhaseCreating :: "Env \<Rightarrow> Reconciler \<Rightarrow> error option \<times> Reconciler" where
  "ReconcilePhaseCreating env r0 =
     (let r = SetPhase NamespaceStorePhaseCreating ''NamespaceStorePhaseCreating''
                (''noobaa operator started phase 3/3 - '' @ quoted ''Creating'') r0 in
      case ReconcileExternalConnection env r of
        (Some err, r) \<Rightarrow> (Some err, r)
      | (None, r) \<Rightarrow> ReconcileNamespaceStore env r)"

text \<open>The calls that create the remote resource.\<close>

definition is_create_call :: "call \<Rightarrow> bool" where
  "is_create_call c = (case c of Call_CreateNamespaceResourceAPI p e \<Rightarrow> True | _ \<Rightarrow> False)"

text \<open>\<^verbatim>\<open>ReconcilePhases\<close> (lines 202 to 218).\<close>

definition ReconcilePhases :: "Env \<Rightarrow> Reconciler \<Rightarrow> (error option \<times> Reconciler) option" where
  "ReconcilePhases env r0 =
     (case ReconcilePhaseVerifying env r0 of
        (Some err, r) \<Rightarrow> Some (Some err, r)
      | (None, r) \<Rightarrow>
          (case ReconcilePhaseConnecting env r of
             None \<Rightarrow> None
           | Some (Some err, r) \<Rightarrow> Some (Some err, r)
           | Some (None, r) \<Rightarrow> Some (ReconcilePhaseCreating env r)))"

subsection \<open>Deletion\<close>

text \<open>\<^verbatim>\<open>FinalizeDeletion\<close> (lines 402 to 408); \<open>None\<close> is the panic of \<^verbatim>\<open>KubeUpdate\<close>.\<close>

definition FinalizeDeletion :: "Env \<Rightarrow> Reconciler \<Rightarrow> (error option \<times> Reconciler) option" where
  "FinalizeDeletion env r0 =
     (let r = r0\<lparr>NamespaceStore := RemoveFinalizer (NamespaceStore r0) Finalizer\<rparr> in
      case KubeUpdate env r of
        None \<Rightarrow> None
      | Some (ok, r) \<Rightarrow>
          if \<not> ok then
            Some (Some (Errorf (''NamespaceStore '' @ quoted (ns_Name (NamespaceStore r)) @
              '' failed to remove finalizer '' @ quoted Finalizer)), r)
          else Some (None, r))"

text \<open>The loop of lines 347 to 353: the name of the first pool of type INTERNAL.\<close>

definition internalPoolName :: "PoolInfo list \<Rightarrow> string" where
  "internalPoolName pools =
     (case find (\<lambda>pool. pool_ResourceType pool = ''INTERNAL'') pools of
        None \<Rightarrow> ''''
      | Some pool \<Rightarrow> pool_Name pool)"

text \<open>The parameters of the call of lines 361 to 366 for one account.\<close>

definition reset_params :: "string \<Rightarrow> AccountInfo \<Rightarrow> UpdateAccountS3AccessParams" where
  "reset_params pool account =
     (let allowedBuckets = acc_AllowedBuckets account;
          allowedBuckets = (if PermissionList allowedBuckets = None
                            then allowedBuckets\<lparr>PermissionList := Some []\<rparr>
                            else allowedBuckets)
      in \<lparr>upd_Email = acc_Email account, upd_S3Access = acc_HasS3Access account,
          upd_DefaultResource = Some pool, upd_AllowBuckets = Some allowedBuckets\<rparr>)"

text \<open>
  The loop over the accounts (lines 354 to 371), for the resource name and the pool name
  given: it stops at the first call that fails and returns its error.
\<close>

fun reset_accounts :: "Env \<Rightarrow> string \<Rightarrow> string \<Rightarrow> AccountInfo list \<Rightarrow> Reconciler \<Rightarrow> error option \<times> Reconciler" where
  "reset_accounts env name pool [] r = (None, r)"
| "reset_accounts env name pool (account # accounts) r =
     (if acc_DefaultResource account = name then
        (let reply = UpdateAccountS3Access env (length (calls r)) (reset_params pool account);
             r' = issue (Call_UpdateAccountS3Access (reset_params pool account) reply) r in
         case reply of
           Some err \<Rightarrow> (Some err, r')
         | None \<Rightarrow> reset_accounts env name pool accounts r')
      else reset_accounts env name pool accounts r)"

text \<open>
  Lines 373 to 380: what becomes of the answer of the resource delete call.  The code
  IN_USE of an RPC error is replaced by an error of its own text; every other error is
  returned as it is.
\<close>

fun resource_delete_error :: "string \<Rightarrow> error option \<Rightarrow> error option" where
  "resource_delete_error name None = None"
| "resource_delete_error name (Some (RPCError code message)) =
     (if code = ''IN_USE'' then
        Some (Errorf (''DeleteNamespaceResourceAPI cannot complete because namespace store ''
          @ quoted name @ '' has buckets attached''))
      else Some (RPCError code message))"
| "resource_delete_error name (Some err) = Some err"

text \<open>
  Lines 344 to 381: the cleanup of the remote resource, when the reconciler holds its
  handle.  \<open>None\<close> is the nil dereference of \<^verbatim>\<open>r.SystemInfo\<close>.
\<close>

definition delete_resource :: "Env \<Rightarrow> Reconciler \<Rightarrow> (error option \<times> Reconciler) option" where
  "delete_resource env r =
     (case NamespaceResourceinfo r of
        None \<Rightarrow> Some (None, r)
      | Some nsr \<Rightarrow>
          (case SystemInfo r of
             None \<Rightarrow> None
           | Some systemInfo \<Rightarrow>
               (case reset_accounts env (nsr_Name nsr) (internalPoolName (Pools systemInfo))
                       (Accounts systemInfo) r of
                  (Some err, r) \<Rightarrow> Some (Some err, r)
                | (None, r) \<Rightarrow>
                    (let reply = DeleteNamespaceResourceAPI env (length (calls r)) (nsr_Name nsr)
                     in Some (resource_delete_error (nsr_Name nsr) reply,
                              issue (Call_DeleteNamespaceResourceAPI (nsr_Name nsr) reply) r)))))"

text \<open>
  Lines 386 to 395: what becomes of the answer of the connection delete call.  An RPC
  error of code IN_USE is logged and dropped; every other error is returned.
\<close>

fun connection_delete_error :: "error option \<Rightarrow> error option" where
  "connection_delete_error None = None"
| "connection_delete_error (Some (RPCError code message)) =
     (if code \<noteq> ''IN_USE'' then Some (RPCError code message) else None)"
| "connection_delete_error (Some err) = Some err"

text \<open>The answers of a delete call after which the deletion goes on: success, and the
  RPC error of code IN_USE.\<close>

fun tolerated :: "error option \<Rightarrow> bool" where
  "tolerated None = True"
| "tolerated (Some (RPCError code message)) = (code = ''IN_USE'')"
| "tolerated (Some err) = False"

text \<open>The calls that delete the remote resource.\<close>

definition is_resource_delete :: "call \<Rightarrow> bool" where
  "is_resource_delete c = (case c of Call_DeleteNamespaceResourceAPI name reply \<Rightarrow> True | _ \<Rightarrow> False)"

text \<open>Lines 383 to 396: the cleanup of the remote connection.\<close>

definition delete_connection :: "Env \<Rightarrow> Reconciler \<Rightarrow> error option \<times> Reconciler" where
  "delete_connection env r =
     (case ExternalConnectionInfo r of
        None \<Rightarrow> (None, r)
      | Some c \<Rightarrow>
          (let reply = DeleteExternalConnectionAPI env (length (calls r)) (ec_Name c)
           in (connection_delete_error reply,
               issue (Call_DeleteExternalConnectionAPI (ec_Name c) reply) r)))"

text \<open>
  The calls of lines 361 to 366 when all of them succeed: one for each account of the
  system, in order, whose default resource has the given name.
\<close>

definition account_resets :: "SystemInfo \<Rightarrow> string \<Rightarrow> call list" where
  "account_resets systemInfo name =
     map (\<lambda>account. Call_UpdateAccountS3Access
            (reset_params (internalPoolName (Pools systemInfo)) account) None)
       (filter (\<lambda>account. acc_DefaultResource account = name) (Accounts systemInfo))"

text \<open>\<^verbatim>\<open>ReconcileDeletion\<close> (lines 320 to 399), from line 335 on.\<close>

definition ReconcileDeletion_cleanup :: "Env \<Rightarrow> Reconciler \<Rightarrow> (error option \<times> Reconciler) option" where
  "ReconcileDeletion_cleanup env r =
     (if nb_UID (NooBaa r) = '''' then FinalizeDeletion env r
      else case ReadSystemInfo env r of
        None \<Rightarrow> None
      | Some (Some err, r) \<Rightarrow> Some (Some err, r)
      | Some (None, r) \<Rightarrow>
          (case delete_resource env r of
             None \<Rightarrow> None
           | Some (Some err, r) \<Rightarrow> Some (Some err, r)
           | Some (None, r) \<Rightarrow>
               (case delete_connection env r of
                  (Some err, r) \<Rightarrow> Some (Some err, r)
                | (None, r) \<Rightarrow> FinalizeDeletion env r)))"

text \<open>\<^verbatim>\<open>ReconcileDeletion\<close>, whole.\<close>

definition ReconcileDeletion :: "Env \<Rightarrow> Reconciler \<Rightarrow> (error option \<times> Reconciler) option" where
  "ReconcileDeletion env r0 =
     (if Status_Phase (NamespaceStore r0) \<noteq> NamespaceStorePhaseDeleting then
        (case UpdateStatus env
                (SetPhase NamespaceStorePhaseDeleting ''NamespaceStorePhaseDeleting''
                   ''noobaa operator started deletion'' r0) of
           (Some err, r) \<Rightarrow> Some (Some err, r)
         | (None, r) \<Rightarrow> ReconcileDeletion_cleanup env r)
      else ReconcileDeletion_cleanup env r0)"

subsection \<open>The entry point\<close>

text \<open>\<^verbatim>\<open>LoadNamespaceStoreSecret\<close> (lines 501 to 512); its error is always nil, \<open>None\<close> is
  the panic of \<^verbatim>\<open>KubeCheck\<close>.\<close>

definition LoadNamespaceStoreSecret :: "Env \<Rightarrow> Reconciler \<Rightarrow> Reconciler option" where
  "LoadNamespaceStoreSecret env r =
     (case GetNamespaceStoreSecret env (NamespaceStore r) of
        None \<Rightarrow> Some r
      | Some secretRef \<Rightarrow>
          (let secret = (Secret r)\<lparr>sec_Name := ref_Name secretRef,
                 sec_Namespace := (if ref_Namespace secretRef = ''''
                                   then ns_Namespace (NamespaceStore r)
                                   else ref_Namespace secretRef)\<rparr>
           in case KubeGet_Secret env (sec_Namespace secret) (sec_Name secret) of
                KubeOK obj \<Rightarrow> Some (r\<lparr>Secret := obj\<rparr>)
              | KubeNoMatch \<Rightarrow> Some (r\<lparr>Secret := secret\<rparr>)
              | KubeNotFound \<Rightarrow> Some (r\<lparr>Secret := secret\<rparr>)
              | KubeConflict \<Rightarrow> Some (r\<lparr>Secret := secret\<rparr>)
              | KubeFailure \<Rightarrow> None))"

definition no_requeue :: Result where
  "no_requeue = \<lparr>Requeue = False, RequeueAfter = 0\<rparr>"

text \<open>
  \<^verbatim>\<open>Reconcile\<close>, lines 121 to 146: loading the record, the mandatory meta fields, the
  system and the secret.  The result is a panic (\<open>None\<close>), an early return with its pair
  (\<open>Inl\<close>), or the reconciler that goes on (\<open>Inr\<close>).
\<close>

definition Reconcile_load :: "Env \<Rightarrow> Reconciler \<Rightarrow> (((Result \<times> error option) \<times> Reconciler) + Reconciler) option" where
  "Reconcile_load env r0 =
     (case KubeCheck_NamespaceStore env r0 of
        None \<Rightarrow> None
      | Some r \<Rightarrow>
          if ns_UID (NamespaceStore r) = '''' then Some (Inl ((no_requeue, None), r))
          else
            (let (updated, obj) = EnsureCommonMetaFields (NamespaceStore r) Finalizer;
                 r = r\<lparr>NamespaceStore := obj\<rparr>
             in case (if updated then KubeUpdate env r else Some (True, r)) of
                  None \<Rightarrow> None
                | Some (ok, r) \<Rightarrow>
                    if \<not> ok then Some (Inl ((no_requeue\<lparr>RequeueAfter := 3 * Second\<rparr>, None), r))
                    else
                      (case CheckSystem env (NooBaa r) of
                         None \<Rightarrow> None
                       | Some sys \<Rightarrow>
                           (case LoadNamespaceStoreSecret env (r\<lparr>NooBaa := sys\<rparr>) of
                              None \<Rightarrow> None
                            | Some r \<Rightarrow> Some (Inr r)))))"

text \<open>Lines 148 to 154: the deletion path or the phase machine.\<close>

definition Reconcile_run :: "Env \<Rightarrow> Reconciler \<Rightarrow> (error option \<times> Reconciler) option" where
  "Reconcile_run env r =
     (if ns_DeletionTimestamp (NamespaceStore r) \<noteq> None then ReconcileDeletion env r
      else ReconcilePhases env r)"

text \<open>
  Lines 156 to 188: what is made of the error of the run.  The result under construction
  \<^verbatim>\<open>res\<close> is still the empty one here.
\<close>

definition Reconcile_classify :: "error option \<Rightarrow> Reconciler \<Rightarrow> Result \<times> Reconciler" where
  "Reconcile_classify err r =
     (case err of
        Some e \<Rightarrow>
          (case e of
             PersistentError reason message \<Rightarrow>
               (let r = SetPhase NamespaceStorePhaseRejected reason message r in
                (no_requeue, if Recorder r then Eventf EventTypeWarning reason message r else r))
           | _ \<Rightarrow>
               (no_requeue\<lparr>RequeueAfter := 3 * Second\<rparr>,
                SetPhase '''' ''TemporaryError'' (Error_text e) r))
      | None \<Rightarrow>
          (let mode = Status_ModeCode (NamespaceStore r) in
           case nsrModeInfoMap mode of
             Some phaseInfo \<Rightarrow>
               if mode_Phase phaseInfo \<noteq> Status_Phase (NamespaceStore r) then
                 (let phaseName = ''NamespaceStorePhase'' @ mode_Phase phaseInfo;
                      desc = ''Namespace store mode: '' @ mode;
                      r = SetPhase (mode_Phase phaseInfo) desc phaseName r
                  in (no_requeue,
                      if Recorder r then Eventf (mode_Severity phaseInfo) phaseName desc r else r))
               else
                 (no_requeue, SetPhase NamespaceStorePhaseReady ''NamespaceStorePhaseReady''
                    ''noobaa operator completed reconcile - namespace store is ready'' r)
           | None \<Rightarrow>
               (no_requeue, SetPhase NamespaceStorePhaseReady ''NamespaceStorePhaseReady''
                  ''noobaa operator completed reconcile - namespace store is ready'' r)))"

text \<open>Lines 191 to 198: the status is written, and the pair is returned.\<close>

definition Reconcile_finish :: "Env \<Rightarrow> Result \<times> Reconciler \<Rightarrow> (Result \<times> error option) \<times> Reconciler" where
  "Reconcile_finish env st =
     (case st of (res, r) \<Rightarrow>
        (case UpdateStatus env r of
           (Some err, r) \<Rightarrow> ((res\<lparr>RequeueAfter := 3 * Second\<rparr>, None), r)
         | (None, r) \<Rightarrow> ((res, None), r)))"

text \<open>
  \<^verbatim>\<open>Reconcile\<close> (lines 119 to 199): the pair it returns and the reconciler as it leaves it,
  or \<open>None\<close> when it panics.
\<close>

definition Reconcile :: "Env \<Rightarrow> Reconciler \<Rightarrow> ((Result \<times> error option) \<times> Reconciler) option" where
  "Reconcile env r0 =
     (case Reconcile_load env r0 of
        None \<Rightarrow> None
      | Some (Inl early) \<Rightarrow> Some early
      | Some (Inr r) \<Rightarrow>
          (case Reconcile_run env r of
             None \<Rightarrow> None
           | Some (err, r) \<Rightarrow> Some (Reconcile_finish env (Reconcile_classify err r))))"

section \<open>Concrete worlds and reconcilers\<close>

text \<open>
  A store of the Azure type and its secret; a world in which the cluster holds both, every
  remote call succeeds, the remote system is empty and the record is one second old; and a
  reconciler for this store, record and secret loaded, with everything else as
  \<^verbatim>\<open>NewReconciler\<close> leaves it.  The examples below vary them.
\<close>

definition azure_store :: NamespaceStore where
  "azure_store =
     \<lparr>ns_Name = ''store'', ns_Namespace = ''ns'', ns_UID = ''uid-1'',
      ns_Labels = Some [(''app'', ''noobaa'')], ns_Finalizers = Some [Finalizer],
      ns_DeletionTimestamp = None,
      ns_Spec = \<lparr>spec_Type = NSStoreTypeAzureBlob, spec_AWSS3 = None, spec_S3Compatible = None,
                 spec_IBMCos = None, spec_NSFS = None\<rparr>,
      Status_Phase = '''', Status_Conditions = [], Status_ModeCode = ''''\<rparr>"

definition azure_secret :: Secret where
  "azure_secret =
     \<lparr>sec_Name = ''creds'', sec_Namespace = ''ns'', sec_UID = ''uid-2'',
      sec_StringData = [(''AccountName'', ''acct''), (''AccountKey'', ''key'')]\<rparr>"

definition empty_system :: SystemInfo where
  "empty_system = \<lparr>Accounts = [], Pools = [], NamespaceResources = []\<rparr>"

definition plain_url_String :: "URL \<Rightarrow> string" where
  "plain_url_String u = url_Scheme u @ ''://'' @ url_Host u @ url_Rest u"

definition printable :: "char \<Rightarrow> bool" where
  "printable c = (32 < (of_char c :: nat) \<and> (of_char c :: nat) < 127)"

definition calm_env :: Env where
  "calm_env =
     \<lparr>KubeGet_NamespaceStore = (\<lambda>namespace name. KubeOK azure_store),
      KubeGet_Secret = (\<lambda>namespace name. KubeOK azure_secret),
      KubeUpdate_reply = (\<lambda>n obj. KubeOK ()),
      StatusUpdate_reply = (\<lambda>n obj. None),
      CheckSystem = (\<lambda>sys. Some (sys\<lparr>nb_UID := ''sys-uid''\<rparr>)),
      GetNamespaceStoreSecret = (\<lambda>obj. Some \<lparr>ref_Name = ''creds'', ref_Namespace = ''''\<rparr>),
      GetNamespaceStoreTargetBucket = (\<lambda>obj. ''bucket''),
      options_Namespace = ''ns'',
      system_Connect = (\<lambda>n. None),
      ReadSystemAPI = (\<lambda>n. Inr empty_system),
      CheckExternalConnectionAPI = (\<lambda>n params.
        Inr \<lparr>reply_Status = ExternalConnectionSuccess, reply_Error_Code = '''',
             reply_Error_Message = ''''\<rparr>),
      AddExternalConnectionAPI = (\<lambda>n params. None),
      CreateNamespaceResourceAPI = (\<lambda>n params. None),
      UpdateAccountS3Access = (\<lambda>n params. None),
      DeleteNamespaceResourceAPI = (\<lambda>n name. None),
      DeleteExternalConnectionAPI = (\<lambda>n name. None),
      time_Since = Second,
      url_Parse = (\<lambda>s. Inl ''parse error''),
      url_String = plain_url_String,
      IsGraphic = printable,
      IsSpace = (\<lambda>c. c = CHR '' '')\<rparr>"

definition new_reconciler :: Reconciler where
  "new_reconciler =
     \<lparr>NamespaceStore = azure_store,
      NooBaa = \<lparr>nb_Name = ''noobaa'', nb_UID = ''sys-uid''\<rparr>,
      Secret = azure_secret,
      Recorder = True,
      SystemInfo = None, ExternalConnectionInfo = None, NamespaceResourceinfo = None,
      AddExternalConnectionParams = None, CreateNamespaceResourceParams = None,
      calls = [], events = []\<rparr>"

text \<open>
  A reconciler whose secret is declared but not found, one whose parent system is gone as
  well, and a world in which the record is six minutes old.
\<close>

definition waiting_reconciler :: Reconciler where
  "waiting_reconciler =
     new_reconciler\<lparr>Secret := \<lparr>sec_Name = ''creds'', sec_Namespace = ''ns'', sec_UID = '''',
                                  sec_StringData = []\<rparr>\<rparr>"

text \<open>
  A remote system in which one account holds two registered connections of the triple of
  \<open>azure_conn\<close>, named \<open>first\<close> and \<open>second\<close> in this order, and the world that reports it.
\<close>

definition registered :: "string \<Rightarrow> ExternalConnectionInfo" where
  "registered name =
     \<lparr>ec_Name = name, ec_EndpointType = EndpointTypeAzure,
      ec_Endpoint = ''https://blob.core.windows.net'', ec_Identity = ''acct''\<rparr>"

definition twin_system :: SystemInfo where
  "twin_system =
     \<lparr>Accounts =
        [\<lparr>acc_Email = ''admin@noobaa.io'', acc_HasS3Access = True, acc_DefaultResource = ''pool'',
          acc_AllowedBuckets = \<lparr>FullPermission = True, PermissionList = None\<rparr>,
          acc_Connections = [registered ''first'', registered ''second'']\<rparr>],
      Pools = [], NamespaceResources = []\<rparr>"

definition twin_env :: Env where
  "twin_env = calm_env\<lparr>ReadSystemAPI := (\<lambda>n. Inr twin_system)\<rparr>"

definition orphan_reconciler :: Reconciler where
  "orphan_reconciler = waiting_reconciler\<lparr>NooBaa := \<lparr>nb_Name = ''noobaa'', nb_UID = ''''\<rparr>\<rparr>"

definition late_env :: Env where
  "late_env = calm_env\<lparr>time_Since := 6 * Minute\<rparr>"

text \<open>
  The descriptor that the Azure store yields in these worlds, a reconciler that holds it
  as the Connecting phase leaves it when no registered connection matches, and a world whose
  connection check answers with a given status.
\<close>

definition azure_conn :: AddExternalConnectionParams where
  "azure_conn =
     \<lparr>conn_Name = ''store'', conn_EndpointType = EndpointTypeAzure,
      conn_Endpoint = ''https://blob.core.windows.net'', conn_Identity = ''acct'',
      conn_Secret = ''key'', conn_AuthMethod = ''''\<rparr>"

definition prepared_reconciler :: Reconciler where
  "prepared_reconciler = new_reconciler\<lparr>AddExternalConnectionParams := Some azure_conn\<rparr>"

definition check_reply :: "string \<Rightarrow> CheckExternalConnectionReply" where
  "check_reply status = \<lparr>reply_Status = status, reply_Error_Code = '''', reply_Error_Message = ''''\<rparr>"

definition answering :: "string \<Rightarrow> Env \<Rightarrow> Env" where
  "answering status env = env\<lparr>CheckExternalConnectionAPI := (\<lambda>n params. Inr (check_reply status))\<rparr>"

text \<open>
  A reconciler for a store of the local-filesystem type, holding a secret whose access key
  is not printable.
\<close>

definition nsfs_reconciler :: Reconciler where
  "nsfs_reconciler =
     new_reconciler\<lparr>NamespaceStore := azure_store\<lparr>ns_Spec :=
         \<lparr>spec_Type = NSStoreTypeNSFS, spec_AWSS3 = None, spec_S3Compatible = None,
          spec_IBMCos = None,
          spec_NSFS = Some \<lparr>NSFS_FsBackend = ''GPFS'', NSFS_FsRootPath = ''/mnt/fs''\<rparr>\<rparr>\<rparr>,
       Secret := azure_secret\<lparr>sec_StringData := [(''AWS_ACCESS_KEY_ID'', [CHR 0x01])]\<rparr>\<rparr>"











text \<open>
  A world whose record reports the mode AUTH_FAILED; the world after a run, in which the
  cluster holds the record as the run left it; and two reconciliations in a row, each by a
  new reconciler, the second in the world after the first.  The log of events of a
  reconciler is that of its own run.
\<close>

definition degraded_env :: Env where
  "degraded_env = calm_env\<lparr>KubeGet_NamespaceStore :=
     (\<lambda>namespace name. KubeOK (azure_store\<lparr>Status_ModeCode := ''AUTH_FAILED''\<rparr>))\<rparr>"

definition published :: "Env \<Rightarrow> Reconciler \<Rightarrow> Env" where
  "published env r = env\<lparr>KubeGet_NamespaceStore := (\<lambda>namespace name. KubeOK (NamespaceStore r))\<rparr>"

definition first_run :: Reconciler where
  "first_run = snd (the (Reconcile degraded_env new_reconciler))"

definition second_run :: Reconciler where
  "second_run = snd (the (Reconcile (published degraded_env first_run) new_reconciler))"

definition auth_failed_event :: Event where
  "auth_failed_event =
     \<lparr>ev_Type = EventTypeWarning, ev_Reason = ''NamespaceStorePhaseRejected'',
      ev_Message = ''Namespace store mode: AUTH_FAILED''\<rparr>"



section \<open>Properties of CombineErrors\<close>

lemmas phase_defs =
  NamespaceStorePhaseVerifying_def NamespaceStorePhaseConnecting_def
  NamespaceStorePhaseCreating_def NamespaceStorePhaseReady_def
  NamespaceStorePhaseRejected_def NamespaceStorePhaseDeleting_def

lemmas store_type_defs =
  NSStoreTypeAWSS3_def NSStoreTypeS3Compatible_def NSStoreTypeIBMCos_def
  NSStoreTypeAzureBlob_def NSStoreTypeNSFS_def

lemmas connection_status_defs =
  ExternalConnectionSuccess_def ExternalConnectionTimeout_def
  ExternalConnectionInvalidEndpoint_def ExternalConnectionInvalidCredentials_def
  ExternalConnectionNotSupported_def ExternalConnectionTimeSkew_def
  ExternalConnectionUnknownFailure_def


lemma CombineErrors_loop_persistent_acc:
  "is_persistent (Some c) \<Longrightarrow> CombineErrors_loop (Some c) errs = Some c"
proof (induction errs)
  case Nil
  then show ?case by simp
next
  case (Cons e errs)
  then show ?case by (cases e) (simp_all add: is_persistent_def)
qed

lemma CombineErrors_loop_finds_persistent:
  "Some p \<in> set errs \<Longrightarrow> IsPersistentError p \<Longrightarrow> is_persistent (CombineErrors_loop acc errs)"
proof (induction acc errs rule: CombineErrors_loop.induct)
  case (1 combined)
  then show ?case by simp
next
  case (2 combined errs)
  then show ?case by simp
next
  case (3 err errs)
  show ?case
  proof (cases "IsPersistentError err")
    case True
    then show ?thesis
      using CombineErrors_loop_persistent_acc [of err errs]
      by (simp add: is_persistent_def)
  next
    case False
    with 3 show ?thesis by auto
  qed
next
  case (4 c err errs)
  show ?case
  proof (cases "IsPersistentError c")
    case True
    then show ?thesis
      using CombineErrors_loop_persistent_acc [of c "Some err # errs"]
      by (simp add: is_persistent_def)
  next
    case cF: False
    show ?thesis
    proof (cases "IsPersistentError err")
      case True
      then show ?thesis
        using cF CombineErrors_loop_persistent_acc [of err errs]
        by (simp add: is_persistent_def)
    next
      case False
      with 4 cF show ?thesis by auto
    qed
  qed
qed

lemma CombineErrors_loop_no_persistent:
  "\<forall>e. Some e \<in> set errs \<longrightarrow> \<not> IsPersistentError e \<Longrightarrow>
   CombineErrors_loop acc errs = (case acc of None \<Rightarrow> first_non_nil errs | Some c \<Rightarrow> Some c)"
  by (induction acc errs rule: CombineErrors_loop.induct) (auto split: option.splits)

text \<open>
  C8.  Whenever the list handed to \<^verbatim>\<open>CombineErrors\<close> holds at least one persistent error
  and at least one non-persistent error, the combined error is a persistent one, and the
  same is true of every reordering of the list; and when no entry of the list is persistent,
  the combined error is the first non-nil entry.
\<close>

theorem CombineErrors_persistent_wins:
  "(Some p \<in> set errs \<and> IsPersistentError p \<and> Some t \<in> set errs \<and> \<not> IsPersistentError t
      \<longrightarrow> is_persistent (CombineErrors errs)
        \<and> (\<forall>errs'. mset errs' = mset errs \<longrightarrow> is_persistent (CombineErrors errs')))
   \<and> ((\<forall>e. Some e \<in> set errs \<longrightarrow> \<not> IsPersistentError e)
      \<longrightarrow> CombineErrors errs = first_non_nil errs)"
proof (intro conjI impI allI)
  assume h: "Some p \<in> set errs \<and> IsPersistentError p \<and> Some t \<in> set errs \<and> \<not> IsPersistentError t"
  then show "is_persistent (CombineErrors errs)"
    unfolding CombineErrors_def using CombineErrors_loop_finds_persistent by blast
  fix errs' :: "error option list"
  assume "mset errs' = mset errs"
  then have "set errs' = set errs" by (rule mset_eq_setD)
  with h have "Some p \<in> set errs'" by simp
  with h show "is_persistent (CombineErrors errs')"
    unfolding CombineErrors_def using CombineErrors_loop_finds_persistent by blast
next
  assume "\<forall>e. Some e \<in> set errs \<longrightarrow> \<not> IsPersistentError e"
  then show "CombineErrors errs = first_non_nil errs"
    unfolding CombineErrors_def by (simp add: CombineErrors_loop_no_persistent)
qed

theorem CombineErrors_persistent_wins_witness:
  "is_persistent (CombineErrors [None, Some (Errorf ''a''), Some (PersistentError ''R'' ''m'')])
   \<and> is_persistent (CombineErrors [Some (PersistentError ''R'' ''m''), None, Some (Errorf ''a'')])
   \<and> CombineErrors [None, Some (Errorf ''a''), Some (RPCError ''c'' ''b'')] = Some (Errorf ''a'')"
proof -
  let ?xs = "[None, Some (Errorf ''a''), Some (PersistentError ''R'' ''m'')]"
  let ?ys = "[Some (PersistentError ''R'' ''m''), None, Some (Errorf ''a'')]"
  let ?zs = "[None, Some (Errorf ''a''), Some (RPCError ''c'' ''b'')]"
  have m: "mset ?ys = mset ?xs" by (simp add: add.commute)
  have a: "is_persistent (CombineErrors ?xs) \<and> is_persistent (CombineErrors ?ys)"
    using CombineErrors_persistent_wins
      [where errs = ?xs and p = "PersistentError ''R'' ''m''" and t = "Errorf ''a''"] m
    by simp
  have b: "CombineErrors ?zs = Some (Errorf ''a'')"
    using CombineErrors_persistent_wins [where errs = ?zs]
    by auto
  from a b show ?thesis by simp
qed

section \<open>What the small steps leave alone\<close>

lemma SetPhase_frame [simp]:
  "NooBaa (SetPhase p a b r) = NooBaa r"
  "Secret (SetPhase p a b r) = Secret r"
  "Recorder (SetPhase p a b r) = Recorder r"
  "SystemInfo (SetPhase p a b r) = SystemInfo r"
  "ExternalConnectionInfo (SetPhase p a b r) = ExternalConnectionInfo r"
  "NamespaceResourceinfo (SetPhase p a b r) = NamespaceResourceinfo r"
  "AddExternalConnectionParams (SetPhase p a b r) = AddExternalConnectionParams r"
  "CreateNamespaceResourceParams (SetPhase p a b r) = CreateNamespaceResourceParams r"
  "calls (SetPhase p a b r) = calls r"
  "events (SetPhase p a b r) = events r"
  by (simp_all add: SetPhase_def Let_def)

lemma issue_frame [simp]:
  "NamespaceStore (issue c r) = NamespaceStore r"
  "NooBaa (issue c r) = NooBaa r"
  "Secret (issue c r) = Secret r"
  "Recorder (issue c r) = Recorder r"
  "SystemInfo (issue c r) = SystemInfo r"
  "ExternalConnectionInfo (issue c r) = ExternalConnectionInfo r"
  "NamespaceResourceinfo (issue c r) = NamespaceResourceinfo r"
  "AddExternalConnectionParams (issue c r) = AddExternalConnectionParams r"
  "CreateNamespaceResourceParams (issue c r) = CreateNamespaceResourceParams r"
  "calls (issue c r) = calls r @ [c]"
  "events (issue c r) = events r"
  by (simp_all add: issue_def)

lemma keeps_refl [simp]: "keeps a a"
  by (simp add: keeps_def)

lemma keeps_spec [simp]: "keeps a (a\<lparr>ns_Spec := s\<rparr>)"
  by (simp add: keeps_def)

lemma keeps_fields:
  assumes "keeps a b"
  shows "ns_Name b = ns_Name a" "ns_Namespace b = ns_Namespace a" "ns_UID b = ns_UID a"
    "ns_Labels b = ns_Labels a" "ns_Finalizers b = ns_Finalizers a"
    "ns_DeletionTimestamp b = ns_DeletionTimestamp a" "Status_Phase b = Status_Phase a"
    "Status_Conditions b = Status_Conditions a" "Status_ModeCode b = Status_ModeCode a"
proof -
  from assms have e: "b = a\<lparr>ns_Spec := ns_Spec b\<rparr>" by (simp add: keeps_def)
  show "ns_Name b = ns_Name a" by (subst e) simp
  show "ns_Namespace b = ns_Namespace a" by (subst e) simp
  show "ns_UID b = ns_UID a" by (subst e) simp
  show "ns_Labels b = ns_Labels a" by (subst e) simp
  show "ns_Finalizers b = ns_Finalizers a" by (subst e) simp
  show "ns_DeletionTimestamp b = ns_DeletionTimestamp a" by (subst e) simp
  show "Status_Phase b = Status_Phase a" by (subst e) simp
  show "Status_Conditions b = Status_Conditions a" by (subst e) simp
  show "Status_ModeCode b = Status_ModeCode a" by (subst e) simp
qed

lemma MakeExternalConnectionParams_frame_eq:
  "MakeExternalConnectionParams env r = Some (x, r') \<Longrightarrow>
   r' = r\<lparr>NamespaceStore := (NamespaceStore r)\<lparr>ns_Spec := ns_Spec (NamespaceStore r')\<rparr>, Secret := Secret r'\<rparr>"
  unfolding MakeExternalConnectionParams_def fixAlternateKeysNames_def Let_def
  by (auto split: option.splits sum.splits if_splits prod.splits)

lemma MakeExternalConnectionParams_frame:
  "MakeExternalConnectionParams env r = Some (x, r') \<Longrightarrow>
   \<exists>spec sec. r' = r\<lparr>NamespaceStore := (NamespaceStore r)\<lparr>ns_Spec := spec\<rparr>, Secret := sec\<rparr>"
  by (blast dest: MakeExternalConnectionParams_frame_eq)

lemma ReadSystemInfo_frame:
  assumes "ReadSystemInfo env r = Some (e, r')"
  shows "events r' = events r \<and> Recorder r' = Recorder r \<and> NooBaa r' = NooBaa r
     \<and> keeps (NamespaceStore r) (NamespaceStore r')
     \<and> (\<exists>c. calls r' = calls r @ [Call_Connect c]
           \<or> (\<exists>a. calls r' = calls r @ [Call_Connect None, Call_ReadSystemAPI a]))"
  using assms unfolding ReadSystemInfo_def Let_def
  by (auto split: option.splits sum.splits if_splits prod.splits
      dest!: MakeExternalConnectionParams_frame)


section \<open>The entry point never returns an error\<close>

text \<open>
  C2.  Whenever \<^verbatim>\<open>Reconcile\<close> returns, on whatever path, the error of the returned pair is
  nil; the result asks for a retry only through its requeue-after duration, the flag
  \<^verbatim>\<open>Requeue\<close> is never set.
\<close>

theorem Reconcile_error_nil:
  "Reconcile env r = Some ((res, err), r') \<Longrightarrow> err = None \<and> Requeue res = False"
  by (auto simp: Reconcile_def Reconcile_load_def Reconcile_finish_def Reconcile_classify_def
        no_requeue_def Let_def
      split: option.splits sum.splits prod.splits if_splits error.splits)

theorem Reconcile_error_nil_witness:
  "Reconcile calm_env new_reconciler \<noteq> None
   \<and> snd (fst (the (Reconcile calm_env new_reconciler))) = None"
proof -
  have ne: "Reconcile calm_env new_reconciler \<noteq> None"
    by code_simp
  then obtain res err r' where h: "Reconcile calm_env new_reconciler = Some ((res, err), r')"
    by (cases "Reconcile calm_env new_reconciler") auto
  from Reconcile_error_nil [OF h] h show ?thesis by simp
qed

section \<open>The grace window of the Verifying phase\<close>

text \<open>
  C4, as amended.  In the Verifying phase, when the parent system exists and a credential
  secret is declared but does not resolve (name set, UID empty): a record younger than 5
  minutes gets an error that is not persistent, a record of 5 minutes or more gets the
  persistent error of reason MissingSecret.
\<close>

theorem Verifying_missing_secret:
  "nb_UID (NooBaa r) \<noteq> '''' \<and> sec_Name (Secret r) \<noteq> '''' \<and> sec_UID (Secret r) = '''' \<longrightarrow>
     (time_Since env < 5 * Minute \<longrightarrow>
        (\<exists>e. fst (ReconcilePhaseVerifying env r) = Some e \<and> \<not> IsPersistentError e))
   \<and> (5 * Minute \<le> time_Since env \<longrightarrow>
        (\<exists>m. fst (ReconcilePhaseVerifying env r) = Some (PersistentError ''MissingSecret'' m)))"
  by (simp add: ReconcilePhaseVerifying_def Let_def NewPersistentError_def)

theorem Verifying_missing_secret_witness:
  "(\<exists>e. fst (ReconcilePhaseVerifying calm_env waiting_reconciler) = Some e \<and> \<not> IsPersistentError e)
   \<and> (\<exists>m. fst (ReconcilePhaseVerifying late_env waiting_reconciler)
            = Some (PersistentError ''MissingSecret'' m))"
proof -
  have r: "nb_UID (NooBaa waiting_reconciler) \<noteq> '''' \<and> sec_Name (Secret waiting_reconciler) \<noteq> ''''
           \<and> sec_UID (Secret waiting_reconciler) = ''''"
    by (simp add: waiting_reconciler_def new_reconciler_def)
  have young: "time_Since calm_env < 5 * Minute"
    by (simp add: calm_env_def Minute_def Second_def)
  have old: "5 * Minute \<le> time_Since late_env"
    by (simp add: late_env_def Minute_def Second_def)
  from Verifying_missing_secret [of waiting_reconciler calm_env] r young
  have a: "\<exists>e. fst (ReconcilePhaseVerifying calm_env waiting_reconciler) = Some e \<and> \<not> IsPersistentError e"
    by blast
  from Verifying_missing_secret [of waiting_reconciler late_env] r old
  have b: "\<exists>m. fst (ReconcilePhaseVerifying late_env waiting_reconciler)
            = Some (PersistentError ''MissingSecret'' m)"
    by blast
  from a b show ?thesis by blast
qed

text \<open>
  The claim without the condition on the parent system fails: the secret is declared and
  not found, the record is one second old, and the phase returns the persistent error
  MissingSystem.
\<close>

theorem Verifying_missing_secret_counterexample:
  "sec_Name (Secret orphan_reconciler) \<noteq> '''' \<and> sec_UID (Secret orphan_reconciler) = ''''
   \<and> time_Since calm_env < 5 * Minute
   \<and> is_persistent (fst (ReconcilePhaseVerifying calm_env orphan_reconciler))
   \<and> map_option Reason (fst (ReconcilePhaseVerifying calm_env orphan_reconciler)) = Some ''MissingSystem''"
  by (simp add: ReconcilePhaseVerifying_def Let_def NewPersistentError_def is_persistent_def
      orphan_reconciler_def waiting_reconciler_def new_reconciler_def calm_env_def
      Minute_def Second_def)

section \<open>The answers of the connection check\<close>

text \<open>
  C5.  When the Creating phase makes the connection check (no connection was matched, a
  descriptor is prepared) and the call returns a result: the statuses invalid-credentials
  and invalid-endpoint give an error that is not persistent while the record is younger than
  5 minutes, and the persistent error named after the status from 5 minutes on; time-skew
  and not-supported give that persistent error at any age; timeout, unknown-failure and
  every other status but success give an error that is not persistent; and the call that
  registers the connection is issued after the check exactly when the status is success.
\<close>

theorem ReconcileExternalConnection_status:
  assumes "ExternalConnectionInfo r = None"
    and "AddExternalConnectionParams r = Some params"
    and "CheckExternalConnectionAPI env (length (calls r)) params = Inr res"
  shows "(reply_Status res = ExternalConnectionInvalidCredentials
            \<or> reply_Status res = ExternalConnectionInvalidEndpoint \<longrightarrow>
           (time_Since env < 5 * Minute \<longrightarrow>
              (\<exists>e. fst (ReconcileExternalConnection env r) = Some e \<and> \<not> IsPersistentError e))
         \<and> (5 * Minute \<le> time_Since env \<longrightarrow>
              (\<exists>m. fst (ReconcileExternalConnection env r) = Some (PersistentError (reply_Status res) m))))
       \<and> (reply_Status res = ExternalConnectionTimeSkew
            \<or> reply_Status res = ExternalConnectionNotSupported \<longrightarrow>
           (\<exists>m. fst (ReconcileExternalConnection env r) = Some (PersistentError (reply_Status res) m)))
       \<and> (reply_Status res = ExternalConnectionTimeout
            \<or> reply_Status res = ExternalConnectionUnknownFailure
            \<or> reply_Status res \<notin> {ExternalConnectionSuccess, ExternalConnectionInvalidCredentials,
                 ExternalConnectionInvalidEndpoint, ExternalConnectionTimeSkew,
                 ExternalConnectionNotSupported} \<longrightarrow>
           (\<exists>e. fst (ReconcileExternalConnection env r) = Some e \<and> \<not> IsPersistentError e))
       \<and> calls (snd (ReconcileExternalConnection env r)) =
            calls r @ [Call_CheckExternalConnectionAPI params (Inr res)] @
            (if reply_Status res = ExternalConnectionSuccess
             then [Call_AddExternalConnectionAPI params
                     (AddExternalConnectionAPI env (Suc (length (calls r))) params)]
             else [])"
  using assms
  by (auto simp: ReconcileExternalConnection_def connection_status_error_def Let_def
        NewPersistentError_def connection_status_defs split: option.splits)

theorem ReconcileExternalConnection_status_witness:
  "(\<exists>e. fst (ReconcileExternalConnection (answering ExternalConnectionInvalidCredentials calm_env)
             prepared_reconciler) = Some e \<and> \<not> IsPersistentError e)
   \<and> (\<exists>m. fst (ReconcileExternalConnection (answering ExternalConnectionInvalidCredentials late_env)
             prepared_reconciler) = Some (PersistentError ExternalConnectionInvalidCredentials m))
   \<and> calls (snd (ReconcileExternalConnection (answering ExternalConnectionSuccess calm_env)
             prepared_reconciler)) =
       [Call_CheckExternalConnectionAPI azure_conn (Inr (check_reply ExternalConnectionSuccess)),
        Call_AddExternalConnectionAPI azure_conn None]"
proof -
  have r: "ExternalConnectionInfo prepared_reconciler = None"
    "AddExternalConnectionParams prepared_reconciler = Some azure_conn"
    "calls prepared_reconciler = []"
    by (simp_all add: prepared_reconciler_def new_reconciler_def)
  have e: "CheckExternalConnectionAPI (answering status env) n azure_conn = Inr (check_reply status)"
    "time_Since (answering status env) = time_Since env"
    "AddExternalConnectionAPI (answering status calm_env) n azure_conn = None"
    for status env n
    by (simp_all add: answering_def calm_env_def)
  have t: "time_Since calm_env < 5 * Minute" "5 * Minute \<le> time_Since late_env"
    by (simp_all add: calm_env_def late_env_def Minute_def Second_def)
  have s: "reply_Status (check_reply status) = status" for status
    by (simp add: check_reply_def)
  note w = ReconcileExternalConnection_status [OF r(1) r(2), unfolded r(3) list.size, OF e(1)]
  from w [of ExternalConnectionInvalidCredentials calm_env] t(1)
  have a: "\<exists>e. fst (ReconcileExternalConnection (answering ExternalConnectionInvalidCredentials calm_env)
             prepared_reconciler) = Some e \<and> \<not> IsPersistentError e"
    by (simp add: e s)
  from w [of ExternalConnectionInvalidCredentials late_env] t(2)
  have b: "\<exists>m. fst (ReconcileExternalConnection (answering ExternalConnectionInvalidCredentials late_env)
             prepared_reconciler) = Some (PersistentError ExternalConnectionInvalidCredentials m)"
    by (simp add: e s)
  from w [of ExternalConnectionSuccess calm_env]
  have c: "calls (snd (ReconcileExternalConnection (answering ExternalConnectionSuccess calm_env)
             prepared_reconciler)) =
       [Call_CheckExternalConnectionAPI azure_conn (Inr (check_reply ExternalConnectionSuccess)),
        Call_AddExternalConnectionAPI azure_conn None]"
    by (simp add: e s r)
  from a b c show ?thesis by blast
qed

section \<open>Reuse of a registered connection\<close>

lemma same_triple_name [simp]: "same_triple c (conn\<lparr>conn_Name := n\<rparr>) = same_triple c conn"
  by (simp add: same_triple_def)

lemma reuse_connection_step:
  "reuse_connection c (info, conn) =
     (if same_triple c conn then (Some c, conn\<lparr>conn_Name := ec_Name c\<rparr>) else (info, conn))"
  by (simp add: reuse_connection_def)

lemma fold_reuse_connection:
  "fold reuse_connection cs (info, conn) =
     (if filter (\<lambda>c. same_triple c conn) cs = [] then (info, conn)
      else (Some (last (filter (\<lambda>c. same_triple c conn) cs)),
            conn\<lparr>conn_Name := ec_Name (last (filter (\<lambda>c. same_triple c conn) cs))\<rparr>))"
proof (induction cs arbitrary: info conn)
  case Nil
  then show ?case by simp
next
  case (Cons c cs)
  have unfold: "fold reuse_connection (c # cs) (info, conn)
                  = fold reuse_connection cs (reuse_connection c (info, conn))"
    by simp
  show ?case
  proof (cases "same_triple c conn")
    case True
    then show ?thesis
      unfolding unfold reuse_connection_step by (simp add: Cons.IH)
  next
    case False
    then show ?thesis
      unfolding unfold reuse_connection_step by (simp add: Cons.IH)
  qed
qed

lemma scan_connections_concat:
  "scan_connections accounts st = fold reuse_connection (concat (map acc_Connections accounts)) st"
  unfolding scan_connections_def
  by (induction accounts arbitrary: st) simp_all

lemma scan_connections_last:
  "scan_connections (Accounts si) (info, conn) =
     (if matches conn si = [] then (info, conn)
      else (Some (last (matches conn si)), conn\<lparr>conn_Name := ec_Name (last (matches conn si))\<rparr>))"
  by (simp add: scan_connections_concat fold_reuse_connection matches_def)

lemma MakeExternalConnectionParams_local:
  "NamespaceStore r2 = NamespaceStore r \<Longrightarrow> Secret r2 = Secret r \<Longrightarrow>
   MakeExternalConnectionParams env r = Some (x, r') \<Longrightarrow>
   MakeExternalConnectionParams env r2 = Some (x, r2\<lparr>NamespaceStore := NamespaceStore r', Secret := Secret r'\<rparr>)"
  unfolding MakeExternalConnectionParams_def fixAlternateKeysNames_def Let_def
  by (auto split: option.splits sum.splits if_splits prod.splits)

text \<open>
  C1, as amended.  When the Connecting phase reads the remote system for a store that is
  not of the local-filesystem type and one or more registered connections have the
  (endpoint-type, endpoint, identity) triple of the desired descriptor, \<^verbatim>\<open>ReadSystemInfo\<close>
  adopts the last match in scan order: it becomes the reused external connection, its name
  becomes the name of the descriptor and the connection of the resource to create; and
  \<^verbatim>\<open>ReconcileExternalConnection\<close> then issues no call, so that no connection is registered.
\<close>

theorem ReadSystemInfo_reuses_last_match:
  assumes "spec_Type (ns_Spec (NamespaceStore r)) \<noteq> NSStoreTypeNSFS"
    and "system_Connect env (length (calls r)) = None"
    and "ReadSystemAPI env (Suc (length (calls r))) = Inr si"
    and "MakeExternalConnectionParams env r = Some (Inr conn, r1)"
    and "matches conn si \<noteq> []"
  shows "\<exists>r'. ReadSystemInfo env r = Some (None, r')
           \<and> ExternalConnectionInfo r' = Some (last (matches conn si))
           \<and> AddExternalConnectionParams r' = Some (conn\<lparr>conn_Name := ec_Name (last (matches conn si))\<rparr>)
           \<and> map_option cnr_Connection (CreateNamespaceResourceParams r') = Some (ec_Name (last (matches conn si)))
           \<and> (\<forall>env'. ReconcileExternalConnection env' r' = (None, r'))"
proof -
  let ?r0 = "(issue (Call_ReadSystemAPI (Inr si)) (issue (Call_Connect None) r))\<lparr>SystemInfo := Some si\<rparr>"
  let ?r = "case find (\<lambda>nsr. nsr_Name nsr = ns_Name (NamespaceStore ?r0)) (NamespaceResources si) of
              None \<Rightarrow> ?r0 | Some nsr \<Rightarrow> ?r0\<lparr>NamespaceResourceinfo := Some nsr\<rparr>"
  have same: "NamespaceStore ?r = NamespaceStore r" "Secret ?r = Secret r"
    by (simp_all split: option.splits)
  from MakeExternalConnectionParams_local [OF same assms(4)]
  have m: "MakeExternalConnectionParams env ?r
            = Some (Inr conn, ?r\<lparr>NamespaceStore := NamespaceStore r1, Secret := Secret r1\<rparr>)" .
  show ?thesis
    using assms(1,2,3,5) m
    unfolding ReadSystemInfo_def Let_def
    by (simp add: scan_connections_last ReconcileExternalConnection_def split: option.splits)
qed

lemma make_azure:
  "MakeExternalConnectionParams twin_env new_reconciler = Some (Inr azure_conn, new_reconciler)"
  by (simp add: MakeExternalConnectionParams_def fixAlternateKeysNames_def fix_key_def
      conn_of_type_def Let_def new_reconciler_def azure_store_def azure_secret_def
      store_type_defs StringData_def IsStringGraphicOrSpacesCharsOnly_def twin_env_def
      calm_env_def printable_def azure_conn_def)

lemma twin_matches:
  "matches azure_conn twin_system = [registered ''first'', registered ''second'']"
  by (simp add: matches_def twin_system_def registered_def azure_conn_def same_triple_def)

theorem ReadSystemInfo_reuses_last_match_witness:
  "\<exists>r'. ReadSystemInfo twin_env new_reconciler = Some (None, r')
      \<and> ExternalConnectionInfo r' = Some (registered ''second'')
      \<and> AddExternalConnectionParams r' = Some (azure_conn\<lparr>conn_Name := ''second''\<rparr>)
      \<and> ReconcileExternalConnection twin_env r' = (None, r')"
proof -
  have t: "spec_Type (ns_Spec (NamespaceStore new_reconciler)) \<noteq> NSStoreTypeNSFS"
    by (simp add: new_reconciler_def azure_store_def store_type_defs)
  have c: "system_Connect twin_env (length (calls new_reconciler)) = None"
    by (simp add: twin_env_def calm_env_def)
  have s: "ReadSystemAPI twin_env (Suc (length (calls new_reconciler))) = Inr twin_system"
    by (simp add: twin_env_def)
  have m: "matches azure_conn twin_system \<noteq> []"
    by (simp add: twin_matches)
  from ReadSystemInfo_reuses_last_match [OF t c s make_azure m]
  show ?thesis
    by (auto simp: twin_matches registered_def)
qed

text \<open>
  The claim says "the first match".  In the world of the two connections the first match in
  scan order is the connection named \<open>first\<close>, and \<^verbatim>\<open>ReadSystemInfo\<close> adopts the one
  named \<open>second\<close>: the loops of lines 472 to 483 do not stop at a match.
\<close>

theorem ReadSystemInfo_first_match_counterexample:
  "ec_Name (hd (matches azure_conn twin_system)) = ''first''
   \<and> length (matches azure_conn twin_system) = 2
   \<and> ReadSystemInfo twin_env new_reconciler \<noteq> None
   \<and> fst (the (ReadSystemInfo twin_env new_reconciler)) = None
   \<and> map_option ec_Name (ExternalConnectionInfo (snd (the (ReadSystemInfo twin_env new_reconciler))))
        = Some ''second''
   \<and> map_option conn_Name (AddExternalConnectionParams (snd (the (ReadSystemInfo twin_env new_reconciler))))
        = Some ''second''"
  by code_simp

section \<open>Stores on a local filesystem\<close>

text \<open>
  C10.  Take a record of the local-filesystem type, held by a reconciler whose add-connection
  parameters are nil as \<^verbatim>\<open>NewReconciler\<close> leaves them.  When the remote system can be
  reached and read (and the NSFS block of the spec is there), \<^verbatim>\<open>ReadSystemInfo\<close> returns nil.
  Whenever it returns, the add-connection parameters are still nil, no connection is
  matched, and secret and record are as before, whatever the secret and the endpoints hold:
  the descriptor is not built and none of its validations runs, the only errors being those
  of reaching and reading the system; when it returns nil, the create-resource parameters
  are those of the NSFS block.  In the Creating phase \<^verbatim>\<open>ReconcileExternalConnection\<close> then
  issues no call, and the only call the phase can issue is the creation of the resource.
\<close>

theorem ReadSystemInfo_nsfs:
  assumes nsfs: "spec_Type (ns_Spec (NamespaceStore r)) = NSStoreTypeNSFS"
    and fresh: "AddExternalConnectionParams r = None"
  shows "(system_Connect env (length (calls r)) = None
            \<and> ReadSystemAPI env (Suc (length (calls r))) = Inr si
            \<and> spec_NSFS (ns_Spec (NamespaceStore r)) = Some block
          \<longrightarrow> (\<exists>r'. ReadSystemInfo env r = Some (None, r')))
       \<and> (ReadSystemInfo env r = Some (e, r') \<longrightarrow>
            AddExternalConnectionParams r' = None
            \<and> ExternalConnectionInfo r' = ExternalConnectionInfo r
            \<and> Secret r' = Secret r \<and> NamespaceStore r' = NamespaceStore r
            \<and> (e = None \<longrightarrow>
                 (\<exists>b. spec_NSFS (ns_Spec (NamespaceStore r)) = Some b
                    \<and> CreateNamespaceResourceParams r' = Some
                        \<lparr>cnr_Name = ns_Name (NamespaceStore r), cnr_Connection = '''',
                         cnr_TargetBucket = '''',
                         cnr_NSFSConfig = Some \<lparr>FsBackend = NSFS_FsBackend b,
                                                 FsRootPath = NSFS_FsRootPath b\<rparr>,
                         cnr_NamespaceStore = Some \<lparr>nsi_Name = ns_Name (NamespaceStore r),
                                                     nsi_Namespace = options_Namespace env\<rparr>\<rparr>))
            \<and> (\<forall>x. e = Some x \<longrightarrow>
                 system_Connect env (length (calls r)) = Some x
                 \<or> ReadSystemAPI env (Suc (length (calls r))) = Inl x)
            \<and> (\<forall>env'. ReconcileExternalConnection env' r' = (None, r'))
            \<and> (\<forall>env'. \<exists>cs. calls (snd (ReconcilePhaseCreating env' r')) = calls r' @ cs
                          \<and> list_all is_create_call cs))"
proof (cases "system_Connect env (length (calls r))")
  case (Some x)
  then have rs: "ReadSystemInfo env r = Some (Some x, issue (Call_Connect (Some x)) r)"
    by (simp add: ReadSystemInfo_def)
  show ?thesis
    unfolding rs using Some fresh
    by (auto simp: ReconcileExternalConnection_def ReconcilePhaseCreating_def
          ReconcileNamespaceStore_def is_create_call_def Let_def split: option.splits)
next
  case None
  note connect = this
  show ?thesis
  proof (cases "ReadSystemAPI env (Suc (length (calls r)))")
    case (Inl x)
    with connect have rs: "ReadSystemInfo env r
        = Some (Some x, issue (Call_ReadSystemAPI (Inl x)) (issue (Call_Connect None) r))"
      by (simp add: ReadSystemInfo_def Let_def)
    show ?thesis
      unfolding rs using Inl connect fresh
      by (auto simp: ReconcileExternalConnection_def ReconcilePhaseCreating_def
            ReconcileNamespaceStore_def is_create_call_def Let_def split: option.splits)
  next
    case (Inr systemInfo)
    note read = this
    show ?thesis
    proof (cases "spec_NSFS (ns_Spec (NamespaceStore r))")
      case None
      with connect read nsfs have "ReadSystemInfo env r = None"
        by (simp add: ReadSystemInfo_def Let_def split: option.splits)
      with None show ?thesis by simp
    next
      case (Some b)
      let ?r0 = "(issue (Call_ReadSystemAPI (Inr systemInfo)) (issue (Call_Connect None) r))
                   \<lparr>SystemInfo := Some systemInfo\<rparr>"
      let ?r1 = "case find (\<lambda>nsr. nsr_Name nsr = ns_Name (NamespaceStore r))
                        (NamespaceResources systemInfo) of
                   None \<Rightarrow> ?r0 | Some nsr \<Rightarrow> ?r0\<lparr>NamespaceResourceinfo := Some nsr\<rparr>"
      let ?params = "\<lparr>cnr_Name = ns_Name (NamespaceStore r), cnr_Connection = '''',
                         cnr_TargetBucket = '''',
                         cnr_NSFSConfig = Some \<lparr>FsBackend = NSFS_FsBackend b,
                                                 FsRootPath = NSFS_FsRootPath b\<rparr>,
                         cnr_NamespaceStore = Some \<lparr>nsi_Name = ns_Name (NamespaceStore r),
                                                     nsi_Namespace = options_Namespace env\<rparr>\<rparr>"
      from connect read nsfs Some
      have rs: "ReadSystemInfo env r = Some (None, ?r1\<lparr>CreateNamespaceResourceParams := Some ?params\<rparr>)"
        by (simp add: ReadSystemInfo_def Let_def split: option.splits)
      have frame: "AddExternalConnectionParams ?r1 = None"
        "ExternalConnectionInfo ?r1 = ExternalConnectionInfo r"
        "Secret ?r1 = Secret r" "NamespaceStore ?r1 = NamespaceStore r"
        using fresh by (simp_all split: option.splits)
      show ?thesis
        unfolding rs using Some frame
        by (auto simp: ReconcileExternalConnection_def ReconcilePhaseCreating_def
              ReconcileNamespaceStore_def is_create_call_def Let_def split: option.splits)
    qed
  qed
qed

theorem ReadSystemInfo_nsfs_witness:
  "\<exists>r'. ReadSystemInfo calm_env nsfs_reconciler = Some (None, r')
      \<and> map_option cnr_NSFSConfig (CreateNamespaceResourceParams r')
            = Some (Some \<lparr>FsBackend = ''GPFS'', FsRootPath = ''/mnt/fs''\<rparr>)
      \<and> AddExternalConnectionParams r' = None
      \<and> Secret r' = Secret nsfs_reconciler
      \<and> ReconcileExternalConnection calm_env r' = (None, r')"
proof -
  have a: "spec_Type (ns_Spec (NamespaceStore nsfs_reconciler)) = NSStoreTypeNSFS"
    "AddExternalConnectionParams nsfs_reconciler = None"
    by (simp_all add: nsfs_reconciler_def new_reconciler_def)
  have b: "system_Connect calm_env (length (calls nsfs_reconciler)) = None"
    "ReadSystemAPI calm_env (Suc (length (calls nsfs_reconciler))) = Inr empty_system"
    "spec_NSFS (ns_Spec (NamespaceStore nsfs_reconciler))
       = Some \<lparr>NSFS_FsBackend = ''GPFS'', NSFS_FsRootPath = ''/mnt/fs''\<rparr>"
    by (simp_all add: calm_env_def nsfs_reconciler_def new_reconciler_def)
  from ReadSystemInfo_nsfs [OF a, THEN conjunct1, of calm_env empty_system] b
  obtain r' where r: "ReadSystemInfo calm_env nsfs_reconciler = Some (None, r')"
    by blast
  from ReadSystemInfo_nsfs [OF a, THEN conjunct2, of calm_env None r'] r b(3)
  have "map_option cnr_NSFSConfig (CreateNamespaceResourceParams r')
            = Some (Some \<lparr>FsBackend = ''GPFS'', FsRootPath = ''/mnt/fs''\<rparr>)
      \<and> AddExternalConnectionParams r' = None
      \<and> Secret r' = Secret nsfs_reconciler
      \<and> ReconcileExternalConnection calm_env r' = (None, r')"
    by auto
  with r show ?thesis by blast
qed

section \<open>What the phases leave alone\<close>

lemma steady_refl [simp]: "steady r r"
  by (simp add: steady_def)

lemma steady_trans: "steady a b \<Longrightarrow> steady b c \<Longrightarrow> steady a c"
  by (simp add: steady_def)

lemma steady_SetPhase [simp]: "steady r (SetPhase p a b r') = steady r r'"
  by (simp add: steady_def SetPhase_def Let_def)

lemma steady_issue [simp]: "steady r (issue c r') = steady r r'"
  by (simp add: steady_def)

lemma steady_after_SetPhase [simp]: "steady (SetPhase p a b r) r' = steady r r'"
  by (simp add: steady_def SetPhase_def Let_def)

lemma steady_after_issue [simp]: "steady (issue c r) r' = steady r r'"
  by (simp add: steady_def)

lemma ReadSystemInfo_steady:
  "ReadSystemInfo env r = Some (e, r') \<Longrightarrow> steady r r'"
  by (drule ReadSystemInfo_frame) (auto simp: steady_def dest: keeps_fields)


lemma ReconcilePhaseVerifying_steady:
  "ReconcilePhaseVerifying env r = (e, r') \<Longrightarrow> steady r r' \<and> calls r' = calls r"
  by (auto simp: ReconcilePhaseVerifying_def Let_def split: if_splits)

lemma ReconcileExternalConnection_steady:
  "ReconcileExternalConnection env r = (e, r') \<Longrightarrow> steady r r' \<and> NamespaceStore r' = NamespaceStore r"
  by (auto simp: ReconcileExternalConnection_def Let_def split: if_splits option.splits sum.splits error.splits)

lemma ReconcileNamespaceStore_steady:
  "ReconcileNamespaceStore env r = (e, r') \<Longrightarrow> steady r r' \<and> NamespaceStore r' = NamespaceStore r"
  by (auto simp: ReconcileNamespaceStore_def Let_def split: if_splits option.splits)

lemma ReconcilePhaseCreating_steady:
  "ReconcilePhaseCreating env r = (e, r') \<Longrightarrow>
     steady r r' \<and> Status_Phase (NamespaceStore r') = NamespaceStorePhaseCreating"
  unfolding ReconcilePhaseCreating_def Let_def
  by (auto split: prod.splits option.splits
      dest!: ReconcileExternalConnection_steady ReconcileNamespaceStore_steady
      simp: SetPhase_def Let_def phase_defs steady_def)

lemma ReconcilePhaseConnecting_steady:
  "ReconcilePhaseConnecting env r = Some (e, r') \<Longrightarrow> steady r r'"
  unfolding ReconcilePhaseConnecting_def
  by (drule ReadSystemInfo_steady) simp

lemma ReconcilePhases_steady:
  assumes "ReconcilePhases env r = Some (e, r')"
  shows "steady r r' \<and> (e = None \<longrightarrow> Status_Phase (NamespaceStore r') = NamespaceStorePhaseCreating)"
proof -
  obtain e1 r1 where v: "ReconcilePhaseVerifying env r = (e1, r1)"
    by (cases "ReconcilePhaseVerifying env r")
  then have s1: "steady r r1"
    by (simp add: ReconcilePhaseVerifying_steady)
  show ?thesis
  proof (cases e1)
    case (Some x)
    with assms v s1 show ?thesis
      by (auto simp: ReconcilePhases_def)
  next
    case None
    with assms v obtain e2 r2 where c: "ReconcilePhaseConnecting env r1 = Some (e2, r2)"
      by (auto simp: ReconcilePhases_def split: option.splits)
    then have s2: "steady r1 r2"
      by (rule ReconcilePhaseConnecting_steady)
    show ?thesis
    proof (cases e2)
      case (Some y)
      with assms v None c have "r' = r2" "e \<noteq> None"
        by (auto simp: ReconcilePhases_def)
      with s1 s2 show ?thesis
        by (auto intro: steady_trans)
    next
      case n2: None
      with assms v None c have k: "ReconcilePhaseCreating env r2 = (e, r')"
        by (simp add: ReconcilePhases_def)
      from ReconcilePhaseCreating_steady [OF k] s1 s2 show ?thesis
        by (auto intro: steady_trans)
    qed
  qed
qed


section \<open>The calls of the deletion path\<close>

lemma reset_accounts_frame:
  "reset_accounts env name pool accounts r = (e, r') \<Longrightarrow> r' = r\<lparr>calls := calls r'\<rparr>"
proof (induction env name pool accounts r rule: reset_accounts.induct)
  case (1 env name pool r)
  then show ?case by simp
next
  case (2 env name pool account accounts r)
  show ?case
  proof (cases "acc_DefaultResource account = name")
    case False
    with 2 show ?thesis by simp
  next
    case True
    let ?reply = "UpdateAccountS3Access env (length (calls r)) (reset_params pool account)"
    let ?r = "issue (Call_UpdateAccountS3Access (reset_params pool account) ?reply) r"
    show ?thesis
    proof (cases ?reply)
      case None
      with 2 True have "r' = ?r\<lparr>calls := calls r'\<rparr>"
        by (simp add: Let_def)
      then show ?thesis by (simp add: issue_def)
    next
      case (Some x)
      with 2(3) True show ?thesis
        by (auto simp: Let_def issue_def)
    qed
  qed
qed

lemma reset_accounts_calls:
  "reset_accounts env name pool accounts r = (e, r') \<Longrightarrow>
   (e = None \<longrightarrow> calls r' = calls r @
        map (\<lambda>account. Call_UpdateAccountS3Access (reset_params pool account) None)
          (filter (\<lambda>account. acc_DefaultResource account = name) accounts))
   \<and> (\<forall>x. e = Some x \<longrightarrow>
        (\<exists>us p. calls r' = calls r @ us @ [Call_UpdateAccountS3Access p (Some x)]
           \<and> (\<forall>c\<in>set us. \<exists>q. c = Call_UpdateAccountS3Access q None)))"
proof (induction env name pool accounts r rule: reset_accounts.induct)
  case (1 env name pool r)
  then show ?case by simp
next
  case (2 env name pool account accounts r)
  show ?case
  proof (cases "acc_DefaultResource account = name")
    case False
    with 2 show ?thesis by simp
  next
    case True
    let ?reply = "UpdateAccountS3Access env (length (calls r)) (reset_params pool account)"
    let ?c = "Call_UpdateAccountS3Access (reset_params pool account) ?reply"
    show ?thesis
    proof (cases ?reply)
      case None
      with 2(3) True have rest: "reset_accounts env name pool accounts (issue ?c r) = (e, r')"
        by (simp add: Let_def)
      from "2.IH"(1) [OF True refl refl None rest]
      have ih: "(e = None \<longrightarrow> calls r' = calls (issue ?c r) @
            map (\<lambda>account. Call_UpdateAccountS3Access (reset_params pool account) None)
              (filter (\<lambda>account. acc_DefaultResource account = name) accounts))
         \<and> (\<forall>x. e = Some x \<longrightarrow>
            (\<exists>us p. calls r' = calls (issue ?c r) @ us @ [Call_UpdateAccountS3Access p (Some x)]
               \<and> (\<forall>c\<in>set us. \<exists>q. c = Call_UpdateAccountS3Access q None)))" .
      show ?thesis
      proof (intro conjI impI allI)
        assume "e = None"
        with ih True None show "calls r' = calls r @
            map (\<lambda>account. Call_UpdateAccountS3Access (reset_params pool account) None)
              (filter (\<lambda>account. acc_DefaultResource account = name) (account # accounts))"
          by simp
      next
        fix x assume "e = Some x"
        with ih obtain us p where
          u: "calls r' = calls (issue ?c r) @ us @ [Call_UpdateAccountS3Access p (Some x)]"
             "\<forall>c\<in>set us. \<exists>q. c = Call_UpdateAccountS3Access q None"
          by blast
        from u None have "calls r' = calls r @ (?c # us) @ [Call_UpdateAccountS3Access p (Some x)]
            \<and> (\<forall>c\<in>set (?c # us). \<exists>q. c = Call_UpdateAccountS3Access q None)"
          by simp
        then show "\<exists>us p. calls r' = calls r @ us @ [Call_UpdateAccountS3Access p (Some x)]
            \<and> (\<forall>c\<in>set us. \<exists>q. c = Call_UpdateAccountS3Access q None)"
          by blast
      qed
    next
      case (Some x)
      with 2(3) True have "e = Some x" "calls r' = calls r @ [] @ [Call_UpdateAccountS3Access (reset_params pool account) (Some x)]"
        by (auto simp: Let_def)
      then show ?thesis by fastforce
    qed
  qed
qed

lemma steady_calls [simp]: "steady r (r'\<lparr>calls := cs\<rparr>) = steady r r'"
  by (simp add: steady_def)

lemma reset_accounts_steady:
  "reset_accounts env name pool accounts r = (e, r') \<Longrightarrow>
     steady r r' \<and> ExternalConnectionInfo r' = ExternalConnectionInfo r
     \<and> NamespaceStore r' = NamespaceStore r"
proof -
  assume "reset_accounts env name pool accounts r = (e, r')"
  then have e: "r' = r\<lparr>calls := calls r'\<rparr>"
    by (rule reset_accounts_frame)
  have "steady r r'" by (subst e) simp
  moreover have "ExternalConnectionInfo r' = ExternalConnectionInfo r" by (subst e) simp
  moreover have "NamespaceStore r' = NamespaceStore r" by (subst e) simp
  ultimately show ?thesis by simp
qed


lemma connection_delete_error_tolerated:
  "connection_delete_error reply = (if tolerated reply then None else reply)"
  by (cases reply rule: tolerated.cases) auto

lemma resource_delete_error_None:
  "(resource_delete_error name reply = None) = (reply = None)"
  by (cases "(name, reply)" rule: resource_delete_error.cases) auto

lemma delete_connection_shape:
  assumes "delete_connection env r = (e, r')"
  shows "steady r r' \<and> NamespaceStore r' = NamespaceStore r
     \<and> (e = None \<and> calls r' = calls r
         \<or> (\<exists>name reply. calls r' = calls r @ [Call_DeleteExternalConnectionAPI name reply]
               \<and> e = (if tolerated reply then None else reply)))"
proof (cases "ExternalConnectionInfo r")
  case None
  with assms show ?thesis by (simp add: delete_connection_def)
next
  case (Some c)
  let ?reply = "DeleteExternalConnectionAPI env (length (calls r)) (ec_Name c)"
  from assms Some have e: "e = (if tolerated ?reply then None else ?reply)"
    and r': "r' = issue (Call_DeleteExternalConnectionAPI (ec_Name c) ?reply) r"
    by (simp_all add: delete_connection_def Let_def connection_delete_error_tolerated)
  from r' have frame: "steady r r'" "NamespaceStore r' = NamespaceStore r"
    by simp_all
  from r' have "calls r' = calls r @ [Call_DeleteExternalConnectionAPI (ec_Name c) ?reply]"
    by simp
  with e have "\<exists>name reply. calls r' = calls r @ [Call_DeleteExternalConnectionAPI name reply]
               \<and> e = (if tolerated reply then None else reply)"
    by blast
  with frame show ?thesis by blast
qed

lemma delete_resource_shape:
  assumes "delete_resource env r = Some (e, r')"
  shows "steady r r' \<and> NamespaceStore r' = NamespaceStore r
     \<and> ExternalConnectionInfo r' = ExternalConnectionInfo r
     \<and> (NamespaceResourceinfo r = None \<and> e = None \<and> calls r' = calls r
         \<or> (\<exists>nsr si. NamespaceResourceinfo r = Some nsr \<and> SystemInfo r = Some si
              \<and> ((\<exists>x us p. e = Some x
                     \<and> calls r' = calls r @ us @ [Call_UpdateAccountS3Access p (Some x)]
                     \<and> (\<forall>c\<in>set us. \<exists>q. c = Call_UpdateAccountS3Access q None))
                 \<or> (\<exists>reply. e = resource_delete_error (nsr_Name nsr) reply
                     \<and> calls r' = calls r @ account_resets si (nsr_Name nsr)
                          @ [Call_DeleteNamespaceResourceAPI (nsr_Name nsr) reply]))))"
proof (cases "NamespaceResourceinfo r")
  case None
  with assms show ?thesis by (simp add: delete_resource_def)
next
  case (Some nsr)
  note handle = this
  with assms obtain si where si: "SystemInfo r = Some si"
    by (cases "SystemInfo r") (auto simp: delete_resource_def)
  obtain e1 r1 where ra: "reset_accounts env (nsr_Name nsr) (internalPoolName (Pools si)) (Accounts si) r = (e1, r1)"
    by (cases "reset_accounts env (nsr_Name nsr) (internalPoolName (Pools si)) (Accounts si) r")
  note st = reset_accounts_steady [OF ra]
  note cl = reset_accounts_calls [OF ra]
  show ?thesis
  proof (cases e1)
    case (Some x)
    with assms handle si ra have "e = Some x" "r' = r1"
      by (simp_all add: delete_resource_def)
    with st cl Some handle si show ?thesis
      by auto
  next
    case None
    let ?reply = "DeleteNamespaceResourceAPI env (length (calls r1)) (nsr_Name nsr)"
    from assms handle si ra None
    have "e = resource_delete_error (nsr_Name nsr) ?reply"
      "r' = issue (Call_DeleteNamespaceResourceAPI (nsr_Name nsr) ?reply) r1"
      by (simp_all add: delete_resource_def Let_def)
    with st cl None handle si show ?thesis
      by (auto simp: account_resets_def)
  qed
qed



lemma resource_delete_error_None' [simp]:
  "(None = resource_delete_error name reply) = (reply = None)"
  using resource_delete_error_None [of name reply] by auto

lemma find_none:
  "find P l = None \<Longrightarrow> x \<in> set l \<Longrightarrow> \<not> P x"
  by (induction l) (auto split: if_splits)





lemma ReconcileDeletion_cases:
  assumes "ReconcileDeletion env r0 = Some (err, r')"
  obtains
    (status_failed) obj x where
      "calls r' = calls r0 @ [Call_StatusUpdate obj (Some x)]" "err = Some x" "steady r0 r'"
  | (cleanup) r1 S where
      "ReconcileDeletion_cleanup env r1 = Some (err, r')" "calls r1 = calls r0 @ S"
      "S = [] \<or> (\<exists>obj. S = [Call_StatusUpdate obj None])" "steady r0 r1"
proof (cases "Status_Phase (NamespaceStore r0) \<noteq> NamespaceStorePhaseDeleting")
  case False
  with assms cleanup [of r0 "[]"] show ?thesis
    by (simp add: ReconcileDeletion_def)
next
  case True
  let ?r = "SetPhase NamespaceStorePhaseDeleting ''NamespaceStorePhaseDeleting''
              ''noobaa operator started deletion'' r0"
  let ?reply = "StatusUpdate_reply env (length (calls r0)) (NamespaceStore ?r)"
  let ?r1 = "issue (Call_StatusUpdate (NamespaceStore ?r) ?reply) ?r"
  have u: "UpdateStatus env ?r = (?reply, ?r1)"
    by (simp add: UpdateStatus_def Let_def)
  show ?thesis
  proof (cases ?reply)
    case None
    with assms True u have "ReconcileDeletion_cleanup env ?r1 = Some (err, r')"
      by (simp add: ReconcileDeletion_def)
    with cleanup [of ?r1 "[Call_StatusUpdate (NamespaceStore ?r) None]"] None show ?thesis
      by simp
  next
    case (Some x)
    with assms True u have "err = Some x" "r' = ?r1"
      by (auto simp: ReconcileDeletion_def)
    with status_failed [of "NamespaceStore ?r" x] Some show ?thesis
      by simp
  qed
qed

lemma is_resource_delete_simps [simp]:
  "is_resource_delete (Call_DeleteNamespaceResourceAPI n rp)"
  "\<not> is_resource_delete (Call_Connect c)"
  "\<not> is_resource_delete (Call_ReadSystemAPI a)"
  "\<not> is_resource_delete (Call_StatusUpdate obj e)"
  "\<not> is_resource_delete (Call_UpdateAccountS3Access p e)"
  "\<not> is_resource_delete (Call_DeleteExternalConnectionAPI n rp)"
  "\<not> is_resource_delete (Call_KubeUpdate obj k)"
  by (simp_all add: is_resource_delete_def)





lemma in_use_error [simp]:
  "resource_delete_error name (Some (RPCError ''IN_USE'' m)) \<noteq> None"
  by simp

section \<open>Deletion: the finalizer goes last\<close>




section \<open>Deletion: accounts are moved off the resource first\<close>



section \<open>What Reconcile makes of an error\<close>

lemma FinalizeDeletion_quiet:
  "FinalizeDeletion env r = Some (e, r') \<Longrightarrow> events r' = events r \<and> Recorder r' = Recorder r"
  unfolding FinalizeDeletion_def KubeUpdate_def Let_def
  by (cases "KubeUpdate_reply env (length (calls r)) (RemoveFinalizer (NamespaceStore r) Finalizer)")
     auto

lemma steady_quiet: "steady r r' \<Longrightarrow> events r' = events r \<and> Recorder r' = Recorder r"
  by (simp add: steady_def)

lemma ReconcileDeletion_cleanup_quiet:
  assumes "ReconcileDeletion_cleanup env r = Some (e, r')"
  shows "events r' = events r \<and> Recorder r' = Recorder r"
proof (cases "nb_UID (NooBaa r) = ''''")
  case True
  with assms show ?thesis
    by (simp add: ReconcileDeletion_cleanup_def FinalizeDeletion_quiet)
next
  case False
  with assms obtain e1 r1 where rd: "ReadSystemInfo env r = Some (e1, r1)"
    by (cases "ReadSystemInfo env r") (auto simp: ReconcileDeletion_cleanup_def)
  note q1 = steady_quiet [OF ReadSystemInfo_steady [OF rd]]
  show ?thesis
  proof (cases e1)
    case (Some x)
    with assms False rd q1 show ?thesis
      by (auto simp: ReconcileDeletion_cleanup_def)
  next
    case None
    with assms False rd obtain e2 r2 where dr: "delete_resource env r1 = Some (e2, r2)"
      by (cases "delete_resource env r1") (auto simp: ReconcileDeletion_cleanup_def)
    from delete_resource_shape [OF dr] have "steady r1 r2" by blast
    note q2 = steady_quiet [OF this]
    show ?thesis
    proof (cases e2)
      case (Some x)
      with assms False rd None dr q1 q2 show ?thesis
        by (auto simp: ReconcileDeletion_cleanup_def)
    next
      case n2: None
      obtain e3 r3 where dc: "delete_connection env r2 = (e3, r3)"
        by (cases "delete_connection env r2")
      from delete_connection_shape [OF dc] have "steady r2 r3" by blast
      note q3 = steady_quiet [OF this]
      show ?thesis
      proof (cases e3)
        case (Some x)
        with assms False rd None dr n2 dc q1 q2 q3 show ?thesis
          by (auto simp: ReconcileDeletion_cleanup_def)
      next
        case n3: None
        with assms False rd None dr n2 dc have "FinalizeDeletion env r3 = Some (e, r')"
          by (simp add: ReconcileDeletion_cleanup_def)
        from FinalizeDeletion_quiet [OF this] q1 q2 q3 show ?thesis by simp
      qed
    qed
  qed
qed

lemma ReconcileDeletion_quiet:
  assumes "ReconcileDeletion env r = Some (e, r')"
  shows "events r' = events r \<and> Recorder r' = Recorder r"
  using assms
proof (cases rule: ReconcileDeletion_cases)
  case (status_failed obj x)
  then show ?thesis by (simp add: steady_quiet)
next
  case (cleanup r1 S)
  from ReconcileDeletion_cleanup_quiet [OF cleanup(1)] steady_quiet [OF cleanup(4)]
  show ?thesis by simp
qed

lemma Reconcile_run_quiet:
  "Reconcile_run env r = Some (e, r') \<Longrightarrow> events r' = events r \<and> Recorder r' = Recorder r"
  unfolding Reconcile_run_def
  by (auto split: if_splits dest: ReconcileDeletion_quiet ReconcilePhases_steady steady_quiet)

lemma KubeUpdate_quiet:
  "KubeUpdate env r = Some (ok, r') \<Longrightarrow> events r' = events r \<and> Recorder r' = Recorder r"
  unfolding KubeUpdate_def Let_def
  by (cases "KubeUpdate_reply env (length (calls r)) (NamespaceStore r)") auto

lemma LoadNamespaceStoreSecret_quiet:
  "LoadNamespaceStoreSecret env r = Some r' \<Longrightarrow> events r' = events r \<and> Recorder r' = Recorder r"
  unfolding LoadNamespaceStoreSecret_def Let_def
  by (auto split: option.splits kube_reply.splits)

lemma KubeCheck_NamespaceStore_quiet:
  "KubeCheck_NamespaceStore env r = Some r' \<Longrightarrow> events r' = events r \<and> Recorder r' = Recorder r"
  unfolding KubeCheck_NamespaceStore_def
  by (auto split: kube_reply.splits)

lemma Reconcile_load_quiet:
  assumes "Reconcile_load env r = Some (Inr r')"
  shows "events r' = events r \<and> Recorder r' = Recorder r"
proof -
  from assms obtain r1 where k: "KubeCheck_NamespaceStore env r = Some r1"
    by (cases "KubeCheck_NamespaceStore env r") (auto simp: Reconcile_load_def)
  note q1 = KubeCheck_NamespaceStore_quiet [OF k]
  obtain updated obj where m: "EnsureCommonMetaFields (NamespaceStore r1) Finalizer = (updated, obj)"
    by (cases "EnsureCommonMetaFields (NamespaceStore r1) Finalizer")
  let ?r2 = "r1\<lparr>NamespaceStore := obj\<rparr>"
  from assms k m obtain ok r3 where
    u: "(if updated then KubeUpdate env ?r2 else Some (True, ?r2)) = Some (ok, r3)"
    by (cases "if updated then KubeUpdate env ?r2 else Some (True, ?r2)")
       (auto simp: Reconcile_load_def split: if_splits)
  then have q3: "events r3 = events r1 \<and> Recorder r3 = Recorder r1"
    by (auto split: if_splits dest: KubeUpdate_quiet)
  from assms k m u obtain sys where
    l: "LoadNamespaceStoreSecret env (r3\<lparr>NooBaa := sys\<rparr>) = Some r'"
    by (auto simp: Reconcile_load_def split: if_splits option.splits)
  from LoadNamespaceStoreSecret_quiet [OF l] q1 q3 show ?thesis by simp
qed

lemma Reconcile_stages:
  "Reconcile_load env r0 = Some (Inr r1) \<Longrightarrow> Reconcile_run env r1 = Some (e, r2) \<Longrightarrow>
   Reconcile env r0 = Some (Reconcile_finish env (Reconcile_classify e r2))"
  by (simp add: Reconcile_def)

lemma Reconcile_finish_result:
  "Reconcile_finish env (res, r) =
     ((if StatusUpdate_reply env (length (calls r)) (NamespaceStore r) = None then res
       else res\<lparr>RequeueAfter := 3 * Second\<rparr>, None),
      issue (Call_StatusUpdate (NamespaceStore r)
               (StatusUpdate_reply env (length (calls r)) (NamespaceStore r))) r)"
  by (simp add: Reconcile_finish_def UpdateStatus_def Let_def split: option.splits)

lemma SetPhase_status:
  "Status_Phase (NamespaceStore (SetPhase p a b r)) = (if p = '''' then Status_Phase (NamespaceStore r) else p)"
  "Status_Conditions (NamespaceStore (SetPhase p a b r)) =
     (if p = '''' then SetProgressingCondition (Status_Conditions (NamespaceStore r)) a b
      else if p = NamespaceStorePhaseReady then SetAvailableCondition (Status_Conditions (NamespaceStore r)) a b
      else if p = NamespaceStorePhaseRejected then SetErrorCondition (Status_Conditions (NamespaceStore r)) a b
      else SetProgressingCondition (Status_Conditions (NamespaceStore r)) a b)"
  by (simp_all add: SetPhase_def Let_def)

lemma Eventf_frame [simp]:
  "NamespaceStore (Eventf t a b r) = NamespaceStore r"
  "calls (Eventf t a b r) = calls r"
  "events (Eventf t a b r) = events r @ [\<lparr>ev_Type = t, ev_Reason = a, ev_Message = b\<rparr>]"
  "Recorder (Eventf t a b r) = Recorder r"
  by (simp_all add: Eventf_def)




section \<open>The mode of the record\<close>

lemma mode_table_phase:
  "nsrModeInfoMap m = Some info \<Longrightarrow>
     mode_Phase info \<noteq> NamespaceStorePhaseCreating \<and> mode_Phase info \<noteq> ''''
     \<and> (mode_Phase info = NamespaceStorePhaseReady \<or> mode_Phase info = NamespaceStorePhaseRejected)"
  by (auto simp: nsrModeInfoMap_def modeInfoMap_def phase_defs split: if_splits)

lemma Reconcile_mode_every_time:
  assumes load: "Reconcile_load env r0 = Some (Inr r1)"
    and live: "ns_DeletionTimestamp (NamespaceStore r1) = None"
    and run: "Reconcile_run env r1 = Some (None, r2)"
  shows "\<exists>res r3. Reconcile env r0 = Some ((res, None), r3)
     \<and> (case nsrModeInfoMap (Status_ModeCode (NamespaceStore r1)) of
           None \<Rightarrow>
             Status_Phase (NamespaceStore r3) = NamespaceStorePhaseReady \<and> events r3 = events r0
         | Some info \<Rightarrow>
             Status_Phase (NamespaceStore r3) = mode_Phase info
             \<and> events r3 = events r0 @
                 (if Recorder r0
                  then [\<lparr>ev_Type = mode_Severity info,
                         ev_Reason = ''NamespaceStorePhase'' @ mode_Phase info,
                         ev_Message = ''Namespace store mode: '' @ Status_ModeCode (NamespaceStore r1)\<rparr>]
                  else []))"
proof -
  from Reconcile_load_quiet [OF load] Reconcile_run_quiet [OF run]
  have q: "events r2 = events r0" "Recorder r2 = Recorder r0"
    by simp_all
  from run live have ph: "ReconcilePhases env r1 = Some (None, r2)"
    by (simp add: Reconcile_run_def)
  from ReconcilePhases_steady [OF ph]
  have cr: "Status_Phase (NamespaceStore r2) = NamespaceStorePhaseCreating"
    and md: "Status_ModeCode (NamespaceStore r2) = Status_ModeCode (NamespaceStore r1)"
    by (simp_all add: steady_def)
  note st = Reconcile_stages [OF load run]
  show ?thesis
  proof (cases "nsrModeInfoMap (Status_ModeCode (NamespaceStore r1))")
    case None
    then show ?thesis
      unfolding st using q md
      by (simp add: Reconcile_classify_def Reconcile_finish_result SetPhase_status
            no_requeue_def Let_def phase_defs)
  next
    case (Some info)
    from mode_table_phase [OF Some] have "mode_Phase info \<noteq> NamespaceStorePhaseCreating"
      "mode_Phase info \<noteq> ''''"
      by simp_all
    with Some show ?thesis
      unfolding st using q md cr
      by (simp add: Reconcile_classify_def Reconcile_finish_result SetPhase_status
            no_requeue_def Let_def)
  qed
qed

text \<open>
  C7.  The claim is that, without error, a mode that the table maps to Rejected sets the
  phase to Rejected and emits a warning event once per change of mode, not again while the
  mode stays the same.  Here the code runs twice in a row on a record that reports
  AUTH_FAILED, the second time on the record as the first run published it, with phase
  Rejected: both runs set the phase to Rejected and both emit the warning event.  The test of
  line 173 compares the phase of the table with the phase in memory, and the phase machine
  has set that one to Creating by then (lemma \<open>Reconcile_mode_every_time\<close> above: the event is
  emitted after every run of the phase machine without error, for every mode of the table).
\<close>

theorem Reconcile_mode_event_repeated:
  "Status_ModeCode (NamespaceStore first_run) = ''AUTH_FAILED''
   \<and> Status_Phase (NamespaceStore first_run) = NamespaceStorePhaseRejected
   \<and> events first_run = [auth_failed_event]
   \<and> Status_ModeCode (NamespaceStore second_run) = ''AUTH_FAILED''
   \<and> Status_Phase (NamespaceStore second_run) = NamespaceStorePhaseRejected
   \<and> events second_run = [auth_failed_event]"
  by code_simp

end
